theory Spec2Isabelle
  imports Main "HOL-Library.Word"
begin

unbundle bit_operations_syntax

section \<open>Bytes, slices and little-endian integers\<close>

type_synonym byte = "8 word"
type_synonym bytes = "byte list"
type_synonym u16 = "16 word"
type_synonym u32 = "32 word"

text \<open>
  A Go error value made by \<open>errors.New\<close> carries its message; a run-time panic is
  kept apart from it, so that "returns an error" and "panics" are different outcomes.
\<close>

datatype fault = Error string | Panic string

text \<open>The Go slice expression \<open>b[lo:hi]\<close>, for \<open>lo \<le> hi \<le> len(b)\<close>.\<close>

definition slice :: "'a list \<Rightarrow> nat \<Rightarrow> nat \<Rightarrow> 'a list" where
  "slice b lo hi = take (hi - lo) (drop lo b)"

text \<open>
  \<open>copy(dst[lo:hi], src)\<close>: the first \<open>min (hi - lo) (len src)\<close> bytes of \<open>src\<close>
  overwrite \<open>dst\<close> from index \<open>lo\<close> on; the rest of \<open>dst\<close> stays.
\<close>

definition copy_bytes :: "bytes \<Rightarrow> nat \<Rightarrow> nat \<Rightarrow> bytes \<Rightarrow> bytes" where
  "copy_bytes dst lo hi src =
     take lo dst @ take (hi - lo) src @ drop (lo + min (hi - lo) (length src)) dst"

text \<open>
  \<open>binary.LittleEndian.PutUint16(b[lo:lo+2], v)\<close>, \<open>PutUint32(b[lo:lo+4], v)\<close> and
  \<open>Uint32(b[lo:lo+4])\<close>. The second argument is the start of the sub-slice the source
  passes; every call of the source lies inside a buffer of known length.
\<close>

definition PutUint16 :: "bytes \<Rightarrow> nat \<Rightarrow> u16 \<Rightarrow> bytes" where
  "PutUint16 b lo v = b[lo := ucast v, lo + 1 := ucast (drop_bit 8 v)]"

definition PutUint32 :: "bytes \<Rightarrow> nat \<Rightarrow> u32 \<Rightarrow> bytes" where
  "PutUint32 b lo v =
     b[lo := ucast v, lo + 1 := ucast (drop_bit 8 v),
       lo + 2 := ucast (drop_bit 16 v), lo + 3 := ucast (drop_bit 24 v)]"

definition Uint16 :: "bytes \<Rightarrow> nat \<Rightarrow> u16" where
  "Uint16 b lo = ucast (b ! lo) OR push_bit 8 (ucast (b ! (lo + 1)))"

definition Uint32 :: "bytes \<Rightarrow> nat \<Rightarrow> u32" where
  "Uint32 b lo =
     ucast (b ! lo) OR push_bit 8 (ucast (b ! (lo + 1)))
       OR push_bit 16 (ucast (b ! (lo + 2))) OR push_bit 24 (ucast (b ! (lo + 3)))"

section \<open>The session\<close>

text \<open>
  \<open>NtlmProvider\<close>. The second listing of \<open>provider.go\<close> has the two fields \<open>IsOEM\<close>
  and \<open>TargetName\<close> that the first one lacks; the functions of the first listing never
  touch them. A nil slice and an empty slice are both \<open>[]\<close>; a nil pointer is \<open>None\<close>.
  \<open>'ti\<close> is \<open>TargetInformation\<close> and \<open>'c\<close> the state of an \<open>rc4.Cipher\<close>.
\<close>

record ('ti, 'c) NtlmProvider =
  User :: string
  Password :: string
  Hash :: bytes
  Domain :: string
  Workstation :: string
  IsOEM :: bool
  TargetName :: bytes
  NegotiateFlags :: u32
  SessionBaseKey :: bytes
  KeyExchangeKey :: bytes
  RandomSessionKey :: bytes
  ExportedSessionKey :: bytes
  ClientSigningKey :: bytes
  ServerSigningKey :: bytes
  ServerHandle :: "'c option"
  ClientHandle :: "'c option"
  SequenceNumber :: u32
  ServerChallenge :: bytes
  ClientChallenge :: bytes
  NegotiateMessage :: bytes
  AuthenticateMessage :: bytes
  TargetInfo :: "'ti option"

section \<open>What the two listings use and do not declare\<close>

text \<open>
  The constants of the package are declared in a file that is not part of the sources
  at hand. They are parameters here: every theorem below holds for any values.
\<close>

record ntlm_consts =
  Signature :: bytes
  ClientVersion :: bytes
  MessageTypeNtLmNegotiate :: u32
  MessageTypeNtLmChallenge :: u32
  MessageTypeNtLmAuthenticate :: u32
  Negotiate56 :: u32
  Negotiate128 :: u32
  NegotiateKeyExch :: u32
  NegotiateTargetInfo :: u32
  NegotiateExtendedSecurity :: u32
  NegotiateAlwaysSign :: u32
  NegotiateNTLM :: u32
  NegotiateSign :: u32
  RequestTarget :: u32
  NegotiateUnicode :: u32
  NegotiateVersion :: u32
  NegotiateDomainSupplied :: u32
  NegotiateWorkstationSupplied :: u32
  NegotiateOEM :: u32
  NegotiateOEMDomainSupplied :: u32
  NegotiateOEMWorkstationSupplied :: u32
  DefaultNegotiateFlags :: u32

text \<open>
  The functions the listings call and do not define, and the standard library. A
  function of Go type \<open>(T, error)\<close> whose value goes to a local variable is
  \<open>fault + T\<close>; where the source assigns value and error at once to a field of the
  session (\<open>n.F, err = f(...)\<close>) the function returns the pair, the value being
  assigned also when the error is not nil. The two methods \<open>NewLMChallengeResponse\<close>
  and \<open>NewNtChallengeResponse\<close> have the session as receiver and may change it. A
  function that returns no error can still panic: \<open>None\<close>.
  \<open>hash.Write\<close> never returns an error, so the two checks of its result in
  \<open>AcceptSecContext\<close> have no branch here.
\<close>

record ('av, 'ti, 'c) ntlm_helpers =
  extractFields :: "bytes \<Rightarrow> bytes \<Rightarrow> fault + bytes"
  NewAvPairs :: "bytes \<Rightarrow> fault + 'av"
  NewTargetInformation :: "'av \<Rightarrow> 'ti option \<times> fault option"
  NewLMChallengeResponse ::
    "('ti, 'c) NtlmProvider \<Rightarrow> bytes option \<times> ('ti, 'c) NtlmProvider"
  NewNtChallengeResponse ::
    "('ti, 'c) NtlmProvider \<Rightarrow> bytes \<Rightarrow> (fault + bytes) \<times> ('ti, 'c) NtlmProvider"
  ToUnicode :: "string \<Rightarrow> bytes"
  StrToUTF16 :: "string \<Rightarrow> bytes"
  ToUpper :: "string \<Rightarrow> string"
  signKey :: "bytes \<Rightarrow> bytes \<Rightarrow> u32 \<Rightarrow> bytes \<times> fault option"
  sealKey :: "bytes \<Rightarrow> bytes \<Rightarrow> u32 \<Rightarrow> fault + bytes"
  sign :: "bytes \<Rightarrow> u32 \<Rightarrow> 'c option \<Rightarrow> bytes \<Rightarrow> u32 \<Rightarrow> bytes
             \<Rightarrow> (bytes \<times> u32 \<times> 'c option) option"
  hmac_md5 :: "bytes \<Rightarrow> bytes \<Rightarrow> bytes"
  rc4_NewCipher :: "bytes \<Rightarrow> 'c option \<times> fault option"
  rc4_XORKeyStream :: "'c \<Rightarrow> bytes \<Rightarrow> bytes \<times> 'c"

section \<open>InitSecContext\<close>

text \<open>First listing, lines 100 to 167.\<close>

definition InitSecContext ::
  "ntlm_consts \<Rightarrow> ('av, 'ti, 'c) ntlm_helpers \<Rightarrow> ('ti, 'c) NtlmProvider
     \<Rightarrow> (fault + bytes) \<times> ('ti, 'c) NtlmProvider" where
  "InitSecContext K H n =
    (let flags0 =
           (if NegotiateFlags n = 0
            then Negotiate56 K OR Negotiate128 K OR NegotiateKeyExch K OR NegotiateTargetInfo K
                   OR NegotiateExtendedSecurity K OR NegotiateAlwaysSign K OR NegotiateNTLM K
                   OR NegotiateSign K OR RequestTarget K OR NegotiateUnicode K
                   OR NegotiateVersion K
            else NegotiateFlags n);
         payload0 = replicate 40 0;
         payload1 = copy_bytes payload0 0 40 (Signature K);
         payload2 = PutUint32 payload1 8 (MessageTypeNtLmNegotiate K);
         flags1 = (if Domain n \<noteq> [] then flags0 OR NegotiateDomainSupplied K else flags0);
         flags = (if Workstation n \<noteq> [] then flags1 OR NegotiateWorkstationSupplied K
                  else flags1);
         n1 = n\<lparr>NegotiateFlags := flags\<rparr>;
         payload3 = PutUint32 payload2 12 flags;
         expectedLen0 = (40 :: nat);
         toAppend0 = [];
         (payload4, toAppend1, expectedLen1) =
           (if Domain n1 \<noteq> [] then
              (let uniStr = ToUnicode H (Domain n1) in
               (PutUint32 (PutUint16 (PutUint16 payload3 16 (of_nat (length uniStr)))
                             18 (of_nat (length uniStr))) 20 (of_nat expectedLen0),
                toAppend0 @ uniStr, expectedLen0 + length uniStr))
            else (payload3, toAppend0, expectedLen0));
         (payload5, toAppend, expectedLen) =
           (if Workstation n1 \<noteq> [] then
              (let uniStr = ToUnicode H (Workstation n1) in
               (PutUint32 (PutUint16 (PutUint16 payload4 24 (of_nat (length uniStr)))
                             26 (of_nat (length uniStr))) 28 (of_nat expectedLen1),
                toAppend1 @ uniStr, expectedLen1 + length uniStr))
            else (payload4, toAppend1, expectedLen1));
         payload = copy_bytes payload5 32 40 (ClientVersion K);
         n2 = n1\<lparr>NegotiateMessage := payload @ toAppend\<rparr>
     in (Inr (NegotiateMessage n2), n2))"

text \<open>Second listing, lines 512 to 576.\<close>

definition InitSecContext_oem ::
  "ntlm_consts \<Rightarrow> ('av, 'ti, 'c) ntlm_helpers \<Rightarrow> ('ti, 'c) NtlmProvider
     \<Rightarrow> (fault + bytes) \<times> ('ti, 'c) NtlmProvider" where
  "InitSecContext_oem K H n =
    (let n0 = (if NegotiateFlags n = 0 then n\<lparr>NegotiateFlags := DefaultNegotiateFlags K\<rparr>
               else n);
         payload0 = replicate 40 0;
         payload1 = copy_bytes payload0 0 40 (Signature K);
         payload2 = PutUint32 payload1 8 (MessageTypeNtLmNegotiate K);
         n1 = (if IsOEM n0 then
                 (let a = n0\<lparr>NegotiateFlags := NegotiateFlags n0 OR NegotiateOEM K\<rparr>;
                      b = (if Domain a \<noteq> []
                           then a\<lparr>NegotiateFlags :=
                                    NegotiateFlags a OR NegotiateOEMDomainSupplied K\<rparr>
                           else a)
                  in if Workstation b \<noteq> []
                     then b\<lparr>NegotiateFlags :=
                              NegotiateFlags b OR NegotiateOEMWorkstationSupplied K\<rparr>
                     else b)
               else n0);
         payload3 = PutUint32 payload2 12 (NegotiateFlags n1);
         expectedLen0 = (40 :: nat);
         toAppend0 = [];
         (payload4, toAppend1, expectedLen1) =
           (if Domain n1 \<noteq> [] \<and> IsOEM n1 then
              (let uniStr = StrToUTF16 H (Domain n1) in
               (PutUint32 (PutUint16 (PutUint16 payload3 16 (of_nat (length uniStr)))
                             18 (of_nat (length uniStr))) 20 (of_nat expectedLen0),
                toAppend0 @ uniStr, expectedLen0 + length uniStr))
            else (payload3, toAppend0, expectedLen0));
         (payload5, toAppend, expectedLen) =
           (if Workstation n1 \<noteq> [] \<and> IsOEM n1 then
              (let uniStr = StrToUTF16 H (Workstation n1) in
               (PutUint32 (PutUint16 (PutUint16 payload4 24 (of_nat (length uniStr)))
                             26 (of_nat (length uniStr))) 28 (of_nat expectedLen1),
                toAppend1 @ uniStr, expectedLen1 + length uniStr))
            else (payload4, toAppend1, expectedLen1));
         payload = copy_bytes payload5 32 40 (ClientVersion K);
         n2 = n1\<lparr>NegotiateMessage := payload @ toAppend\<rparr>
     in (Inr (NegotiateMessage n2), n2))"

section \<open>AcceptSecContext\<close>

text \<open>The conversion \<open>[]byte("...")\<close> of a string constant.\<close>

definition go_bytes :: "string \<Rightarrow> bytes" where
  "go_bytes s = map (\<lambda>c. of_nat (of_char c)) s"

text \<open>
  First listing, lines 337 to 384: the signing keys, the sealing keys and the two
  cipher handles, then the return of the message. The magic constants end in
  \<open>\x00\<close>.
\<close>

definition AcceptSecContext_keys ::
  "ntlm_consts \<Rightarrow> ('av, 'ti, 'c) ntlm_helpers \<Rightarrow> ('ti, 'c) NtlmProvider
     \<Rightarrow> (fault + bytes) \<times> ('ti, 'c) NtlmProvider" where
  "AcceptSecContext_keys K H n =
    (case signKey H (ExportedSessionKey n)
            (go_bytes ''session key to server-to-client signing key magic constant'' @ [0])
            (NegotiateFlags n) of
       (_, Some (Panic m)) \<Rightarrow> (Inl (Panic m), n)
     | (k, Some (Error m)) \<Rightarrow> (Inl (Error m), n\<lparr>ServerSigningKey := k\<rparr>)
     | (k, None) \<Rightarrow>
    (let n1 = n\<lparr>ServerSigningKey := k\<rparr> in
     case signKey H (ExportedSessionKey n1)
            (go_bytes ''session key to client-to-server signing key magic constant'' @ [0])
            (NegotiateFlags n1) of
       (_, Some (Panic m)) \<Rightarrow> (Inl (Panic m), n1)
     | (k, Some (Error m)) \<Rightarrow> (Inl (Error m), n1\<lparr>ClientSigningKey := k\<rparr>)
     | (k, None) \<Rightarrow>
    (let n2 = n1\<lparr>ClientSigningKey := k\<rparr> in
     case sealKey H (ExportedSessionKey n2)
            (go_bytes ''session key to client-to-server sealing key magic constant'' @ [0])
            (NegotiateFlags n2) of
       Inl e \<Rightarrow> (Inl e, n2)
     | Inr sealedClientKey \<Rightarrow>
    (case sealKey H (ExportedSessionKey n2)
            (go_bytes ''session key to server-to-client sealing key magic constant'' @ [0])
            (NegotiateFlags n2) of
       Inl e \<Rightarrow> (Inl e, n2)
     | Inr sealedServerKey \<Rightarrow>
    (case rc4_NewCipher H sealedClientKey of
       (_, Some (Panic m)) \<Rightarrow> (Inl (Panic m), n2)
     | (c, Some (Error m)) \<Rightarrow> (Inl (Error m), n2\<lparr>ClientHandle := c\<rparr>)
     | (c, None) \<Rightarrow>
    (let n3 = n2\<lparr>ClientHandle := c\<rparr> in
     case rc4_NewCipher H sealedServerKey of
       (_, Some (Panic m)) \<Rightarrow> (Inl (Panic m), n3)
     | (c, Some (Error m)) \<Rightarrow> (Inl (Error m), n3\<lparr>ServerHandle := c\<rparr>)
     | (c, None) \<Rightarrow>
    (let n4 = n3\<lparr>ServerHandle := c\<rparr> in
     (Inr (AuthenticateMessage n4), n4))))))))"

text \<open>
  First listing, lines 248 to 335: the AUTHENTICATE message. \<open>offset\<close> is a Go
  \<open>int\<close>, a natural number here; \<open>uint16(len(x))\<close> and \<open>uint32(offset)\<close> truncate,
  as \<open>of_nat\<close> does. \<open>hash.Sum(b)\<close> appends the digest to \<open>b\<close> and returns the
  result; the HMAC has been fed \<open>n.NegotiateMessage\<close> and \<open>n.AuthenticateMessage\<close>.
\<close>

definition AcceptSecContext_message ::
  "ntlm_consts \<Rightarrow> ('av, 'ti, 'c) ntlm_helpers \<Rightarrow> ('ti, 'c) NtlmProvider \<Rightarrow> bytes
     \<Rightarrow> (fault + bytes) \<times> ('ti, 'c) NtlmProvider" where
  "AcceptSecContext_message K H n targetName =
    (let payload0 = [];
         offset0 = (88 :: nat);
         am0 = replicate offset0 0;
         am1 = copy_bytes am0 0 8 (Signature K);
         am2 = PutUint32 am1 8 (MessageTypeNtLmAuthenticate K)
     in case NewLMChallengeResponse H n of
       (None, na) \<Rightarrow> (Inl (Panic ''NewLMChallengeResponse''), na)
     | (Some lm, na) \<Rightarrow>
    (let am3 = PutUint32 (PutUint16 (PutUint16 am2 12 (of_nat (length lm)))
                            14 (of_nat (length lm))) 16 (of_nat offset0);
         payload1 = payload0 @ lm;
         offset1 = offset0 + length lm
     in case NewNtChallengeResponse H na targetName of
       (Inl e, nb) \<Rightarrow> (Inl e, nb)
     | (Inr nt, nb) \<Rightarrow>
    (let am4 = PutUint32 (PutUint16 (PutUint16 am3 20 (of_nat (length nt)))
                            22 (of_nat (length nt))) 24 (of_nat offset1);
         payload2 = payload1 @ nt;
         offset2 = offset1 + length nt;
         domain = ToUnicode H (ToUpper H (Domain nb));
         am5 = PutUint32 (PutUint16 (PutUint16 am4 28 (of_nat (length domain)))
                            30 (of_nat (length domain))) 32 (of_nat offset2);
         payload3 = payload2 @ domain;
         offset3 = offset2 + length domain;
         user = ToUnicode H (ToUpper H (User nb));
         am6 = PutUint32 (PutUint16 (PutUint16 am5 36 (of_nat (length user)))
                            38 (of_nat (length user))) 40 (of_nat offset3);
         payload4 = payload3 @ user;
         offset4 = offset3 + length user;
         workstation = ToUnicode H (ToUpper H (Workstation nb));
         am7 = PutUint32 (PutUint16 (PutUint16 am6 44 (of_nat (length workstation)))
                            46 (of_nat (length workstation))) 48 (of_nat offset4);
         payload5 = payload4 @ workstation;
         offset5 = offset4 + length workstation;
         am8 = PutUint32 (PutUint16 (PutUint16 am7 52 (of_nat (length (RandomSessionKey nb))))
                            54 (of_nat (length (RandomSessionKey nb)))) 56 (of_nat offset5);
         payload6 = payload5 @ RandomSessionKey nb;
         offset6 = offset5 + length (RandomSessionKey nb);
         am9 = PutUint32 am8 60 (NegotiateFlags nb);
         am10 = copy_bytes am9 64 72 (ClientVersion K);
         authenticateMessage = copy_bytes am10 72 88 (replicate 16 0);
         nc = nb\<lparr>AuthenticateMessage := authenticateMessage @ payload6\<rparr>;
         written = NegotiateMessage nc @ AuthenticateMessage nc;
         hash_Sum = slice authenticateMessage 72 88
                      @ hmac_md5 H (ExportedSessionKey nc) written;
         nd = nc\<lparr>AuthenticateMessage := copy_bytes (AuthenticateMessage nc) 72 88 hash_Sum\<rparr>
     in AcceptSecContext_keys K H nd)))"

text \<open>First listing, lines 170 to 230, and from there the two parts above.\<close>

definition AcceptSecContext ::
  "ntlm_consts \<Rightarrow> ('av, 'ti, 'c) ntlm_helpers \<Rightarrow> ('ti, 'c) NtlmProvider \<Rightarrow> bytes
     \<Rightarrow> (fault + bytes) \<times> ('ti, 'c) NtlmProvider" where
  "AcceptSecContext K H n sc =
    (if length sc < 48 then (Inl (Error ''invalid challenge message length''), n)
     else if slice sc 0 8 \<noteq> Signature K then (Inl (Error ''invalid signature''), n)
     else if Uint32 sc 8 \<noteq> MessageTypeNtLmChallenge K
       then (Inl (Error ''invalid message type''), n)
     else case extractFields H (slice sc 12 20) sc of
       Inl e \<Rightarrow> (Inl e, n)
     | Inr targetName \<Rightarrow>
    (let challengeFlags = Uint32 sc 20 in
     if NegotiateFlags n AND challengeFlags AND RequestTarget K = 0
        \<or> NegotiateFlags n AND challengeFlags AND NegotiateTargetInfo K = 0
     then (Inl (Error ''invalid negotiate flags''), n)
     else
    (let n1 = n\<lparr>ServerChallenge := slice sc 24 32\<rparr> in
     case extractFields H (slice sc 40 48) sc of
       Inl e \<Rightarrow> (Inl e, n1)
     | Inr targetInfo \<Rightarrow>
    (case NewAvPairs H targetInfo of
       Inl e \<Rightarrow> (Inl e, n1)
     | Inr avpairs \<Rightarrow>
    (case NewTargetInformation H avpairs of
       (_, Some (Panic m)) \<Rightarrow> (Inl (Panic m), n1)
     | (ti, Some (Error m)) \<Rightarrow> (Inl (Error m), n1\<lparr>TargetInfo := ti\<rparr>)
     | (ti, None) \<Rightarrow> AcceptSecContext_message K H (n1\<lparr>TargetInfo := ti\<rparr>) targetName)))))"

section \<open>GetMIC and SessionKey\<close>

text \<open>
  Both listings, lines 388 to 402 and 587 to 601. \<open>sign\<close> works on the cipher behind
  \<open>n.ClientHandle\<close>: the state it leaves there is the third component of its result.
  \<open>GetMIC\<close> has the one result \<open>mic []byte\<close>; the left summand is reached by a panic
  of \<open>sign\<close> only.
\<close>

definition GetMIC ::
  "ntlm_consts \<Rightarrow> ('av, 'ti, 'c) ntlm_helpers \<Rightarrow> ('ti, 'c) NtlmProvider \<Rightarrow> bytes
     \<Rightarrow> (fault + bytes) \<times> ('ti, 'c) NtlmProvider" where
  "GetMIC K H n bs =
    (if NegotiateFlags n AND NegotiateSign K = 0 then (Inr [], n)
     else case sign H [] (NegotiateFlags n) (ClientHandle n) (ClientSigningKey n)
                 (SequenceNumber n) bs of
       None \<Rightarrow> (Inl (Panic ''sign''), n)
     | Some (mic, seq, handle) \<Rightarrow>
         (Inr mic, n\<lparr>SequenceNumber := seq, ClientHandle := handle\<rparr>))"


text \<open>A caller that asks for the signatures of several messages, one \<open>GetMIC\<close> after the other.\<close>

fun GetMIC_calls ::
  "ntlm_consts \<Rightarrow> ('av, 'ti, 'c) ntlm_helpers \<Rightarrow> ('ti, 'c) NtlmProvider \<Rightarrow> bytes list
     \<Rightarrow> (fault + bytes) list \<times> ('ti, 'c) NtlmProvider" where
  "GetMIC_calls K H n [] = ([], n)"
| "GetMIC_calls K H n (bs # rest) =
     (let (r, n1) = GetMIC K H n bs;
          (rs, n2) = GetMIC_calls K H n1 rest
      in (r # rs, n2))"

text \<open>The default capability set, as lines 111 to 113 of the first listing spell it.\<close>

definition default_flags :: "ntlm_consts \<Rightarrow> u32" where
  "default_flags K =
     Negotiate56 K OR Negotiate128 K OR NegotiateKeyExch K OR NegotiateTargetInfo K
       OR NegotiateExtendedSecurity K OR NegotiateAlwaysSign K OR NegotiateNTLM K
       OR NegotiateSign K OR RequestTarget K OR NegotiateUnicode K OR NegotiateVersion K"

text \<open>
  The 88 fixed bytes of the AUTHENTICATE message as lines 253 to 322 fill them, from the
  lengths of the six payload fields and the flags: the chain of writes of
  \<open>AcceptSecContext_message\<close>, by itself.
\<close>

definition authenticate_fixed ::
  "ntlm_consts \<Rightarrow> nat \<Rightarrow> nat \<Rightarrow> nat \<Rightarrow> nat \<Rightarrow> nat \<Rightarrow> nat \<Rightarrow> u32 \<Rightarrow> bytes" where
  "authenticate_fixed K lm nt domain user workstation key flags =
    (let offset0 = (88 :: nat);
         am0 = replicate offset0 0;
         am1 = copy_bytes am0 0 8 (Signature K);
         am2 = PutUint32 am1 8 (MessageTypeNtLmAuthenticate K);
         am3 = PutUint32 (PutUint16 (PutUint16 am2 12 (of_nat lm)) 14 (of_nat lm))
                 16 (of_nat offset0);
         offset1 = offset0 + lm;
         am4 = PutUint32 (PutUint16 (PutUint16 am3 20 (of_nat nt)) 22 (of_nat nt))
                 24 (of_nat offset1);
         offset2 = offset1 + nt;
         am5 = PutUint32 (PutUint16 (PutUint16 am4 28 (of_nat domain)) 30 (of_nat domain))
                 32 (of_nat offset2);
         offset3 = offset2 + domain;
         am6 = PutUint32 (PutUint16 (PutUint16 am5 36 (of_nat user)) 38 (of_nat user))
                 40 (of_nat offset3);
         offset4 = offset3 + user;
         am7 = PutUint32 (PutUint16 (PutUint16 am6 44 (of_nat workstation))
                            46 (of_nat workstation)) 48 (of_nat offset4);
         offset5 = offset4 + workstation;
         am8 = PutUint32 (PutUint16 (PutUint16 am7 52 (of_nat key)) 54 (of_nat key))
                 56 (of_nat offset5);
         am9 = PutUint32 am8 60 flags;
         am10 = copy_bytes am9 64 72 (ClientVersion K)
     in copy_bytes am10 72 88 (replicate 16 0))"

section \<open>Reading a message\<close>

text \<open>The four bytes of \<open>v\<close>, least significant first.\<close>

definition le32 :: "u32 \<Rightarrow> bytes" where
  "le32 v = PutUint32 (replicate 4 0) 0 v"

text \<open>
  The bytes a field descriptor designates (section 4.1 of the spec): the descriptor at
  \<open>pos\<close> is \<open>len:u16, maxlen:u16, offset:u32\<close>, and the field is the \<open>len\<close> bytes
  of the message from \<open>offset\<close> on.
\<close>

definition field_bytes :: "bytes \<Rightarrow> nat \<Rightarrow> bytes" where
  "field_bytes msg pos =
     slice msg (unat (Uint32 msg (pos + 4))) (unat (Uint32 msg (pos + 4)) + unat (Uint16 msg pos))"

text \<open>The sequence number a signature record ends with: its last four bytes.\<close>

definition embedded_seq :: "bytes \<Rightarrow> u32" where
  "embedded_seq mic = Uint32 mic (length mic - 4)"

text \<open>
  A session as a caller creates it: the composite literal
  \<open>&NtlmProvider{User: ..., Password: ..., Hash: ..., Domain: ..., Workstation: ...}\<close>,
  every other field at Go's zero value.
\<close>

definition new_provider ::
  "string \<Rightarrow> string \<Rightarrow> bytes \<Rightarrow> string \<Rightarrow> string \<Rightarrow> ('ti, 'c) NtlmProvider" where
  "new_provider user password hash domain workstation =
     \<lparr>User = user, Password = password, Hash = hash, Domain = domain,
      Workstation = workstation, IsOEM = False, TargetName = [], NegotiateFlags = 0,
      SessionBaseKey = [], KeyExchangeKey = [], RandomSessionKey = [],
      ExportedSessionKey = [], ClientSigningKey = [], ServerSigningKey = [],
      ServerHandle = None, ClientHandle = None, SequenceNumber = 0, ServerChallenge = [],
      ClientChallenge = [], NegotiateMessage = [], AuthenticateMessage = [],
      TargetInfo = None\<rparr>"

section \<open>The standard library: crypto/md5, crypto/hmac, crypto/rc4\<close>

text \<open>MD5 as in RFC 1321: the shifts, the sine table, one step, one 64-byte block, the padding.\<close>

definition md5_s :: "nat list" where
  "md5_s = [7, 12, 17, 22, 7, 12, 17, 22, 7, 12, 17, 22, 7, 12, 17, 22,
            5, 9, 14, 20, 5, 9, 14, 20, 5, 9, 14, 20, 5, 9, 14, 20,
            4, 11, 16, 23, 4, 11, 16, 23, 4, 11, 16, 23, 4, 11, 16, 23,
            6, 10, 15, 21, 6, 10, 15, 21, 6, 10, 15, 21, 6, 10, 15, 21]"

definition md5_K :: "u32 list" where
  "md5_K = [0xd76aa478, 0xe8c7b756, 0x242070db, 0xc1bdceee, 0xf57c0faf, 0x4787c62a, 0xa8304613, 0xfd469501,
0x698098d8, 0x8b44f7af, 0xffff5bb1, 0x895cd7be, 0x6b901122, 0xfd987193, 0xa679438e, 0x49b40821,
0xf61e2562, 0xc040b340, 0x265e5a51, 0xe9b6c7aa, 0xd62f105d, 0x02441453, 0xd8a1e681, 0xe7d3fbc8,
0x21e1cde6, 0xc33707d6, 0xf4d50d87, 0x455a14ed, 0xa9e3e905, 0xfcefa3f8, 0x676f02d9, 0x8d2a4c8a,
0xfffa3942, 0x8771f681, 0x6d9d6122, 0xfde5380c, 0xa4beea44, 0x4bdecfa9, 0xf6bb4b60, 0xbebfbc70,
0x289b7ec6, 0xeaa127fa, 0xd4ef3085, 0x04881d05, 0xd9d4d039, 0xe6db99e5, 0x1fa27cf8, 0xc4ac5665,
0xf4292244, 0x432aff97, 0xab9423a7, 0xfc93a039, 0x655b59c3, 0x8f0ccc92, 0xffeff47d, 0x85845dd1,
0x6fa87e4f, 0xfe2ce6e0, 0xa3014314, 0x4e0811a1, 0xf7537e82, 0xbd3af235, 0x2ad7d2bb, 0xeb86d391]"

type_synonym md5_state = "u32 \<times> u32 \<times> u32 \<times> u32"

definition md5_step :: "u32 list \<Rightarrow> md5_state \<Rightarrow> nat \<Rightarrow> md5_state" where
  "md5_step M st i =
     (case st of (a, b, c, d) \<Rightarrow>
      let (f, g) =
            (if i < 16 then ((b AND c) OR (NOT b AND d), i)
             else if i < 32 then ((d AND b) OR (NOT d AND c), (5 * i + 1) mod 16)
             else if i < 48 then (b XOR c XOR d, (3 * i + 5) mod 16)
             else (c XOR (b OR NOT d), (7 * i) mod 16))
      in (d, b + word_rotl (md5_s ! i) (a + f + md5_K ! i + M ! g), b, c))"

definition md5_block :: "md5_state \<Rightarrow> bytes \<Rightarrow> md5_state" where
  "md5_block st blk =
     (case st of (a0, b0, c0, d0) \<Rightarrow>
      case foldl (md5_step (map (\<lambda>j. Uint32 blk (4 * j)) [0..<16])) st [0..<64] of
        (a, b, c, d) \<Rightarrow> (a0 + a, b0 + b, c0 + c, d0 + d))"

primrec md5_blocks :: "nat \<Rightarrow> md5_state \<Rightarrow> bytes \<Rightarrow> md5_state" where
  "md5_blocks 0 st bs = st"
| "md5_blocks (Suc k) st bs = md5_blocks k (md5_block st (take 64 bs)) (drop 64 bs)"

definition md5_pad :: "bytes \<Rightarrow> bytes" where
  "md5_pad msg =
     msg @ [0x80] @ replicate ((119 - length msg mod 64) mod 64) 0
       @ map (\<lambda>i. ucast (drop_bit (8 * i) (of_nat (8 * length msg) :: 64 word))) [0..<8]"

definition md5 :: "bytes \<Rightarrow> bytes" where
  "md5 msg =
     (let p = md5_pad msg in
      case md5_blocks (length p div 64) (0x67452301, 0xefcdab89, 0x98badcfe, 0x10325476) p of
        (a, b, c, d) \<Rightarrow> le32 a @ le32 b @ le32 c @ le32 d)"

definition hmac_md5_impl :: "bytes \<Rightarrow> bytes \<Rightarrow> bytes" where
  "hmac_md5_impl key msg =
     (let k0 = (if 64 < length key then md5 key else key);
          k = k0 @ replicate (64 - length k0) 0
      in md5 (map (\<lambda>b. b XOR 0x5c) k @ md5 (map (\<lambda>b. b XOR 0x36) k @ msg)))"

text \<open>
  RC4: the cipher \<open>rc4.Cipher\<close> is the permutation and the two indices. \<open>rc4_init\<close> is the key
  schedule of \<open>rc4.NewCipher\<close>, \<open>rc4_xor\<close> is \<open>XORKeyStream\<close>.
\<close>

datatype rc4_cipher = Cipher bytes nat nat

definition swap_at :: "'a list \<Rightarrow> nat \<Rightarrow> nat \<Rightarrow> 'a list" where
  "swap_at s i j = s[i := s ! j, j := s ! i]"

definition rc4_ksa_step :: "bytes \<Rightarrow> bytes \<times> nat \<Rightarrow> nat \<Rightarrow> bytes \<times> nat" where
  "rc4_ksa_step key sj i =
     (case sj of (s, j) \<Rightarrow>
      let j' = (j + unat (s ! i) + unat (key ! (i mod length key))) mod 256
      in (swap_at s i j', j'))"

definition rc4_init :: "bytes \<Rightarrow> rc4_cipher" where
  "rc4_init key =
     Cipher (fst (foldl (rc4_ksa_step key) (map of_nat [0..<256], 0) [0..<256])) 0 0"

fun rc4_xor :: "rc4_cipher \<Rightarrow> bytes \<Rightarrow> bytes \<times> rc4_cipher" where
  "rc4_xor c [] = ([], c)"
| "rc4_xor (Cipher s i j) (x # xs) =
     (let i' = (i + 1) mod 256;
          j' = (j + unat (s ! i')) mod 256;
          s' = swap_at s i' j';
          k = s' ! ((unat (s' ! i') + unat (s' ! j')) mod 256);
          (ys, c') = rc4_xor (Cipher s' i' j') xs
      in ((x XOR k) # ys, c'))"

definition rc4_NewCipher_impl :: "bytes \<Rightarrow> rc4_cipher option \<times> fault option" where
  "rc4_NewCipher_impl key =
     (if length key < 1 \<or> 256 < length key
      then (None, Some (Error ''crypto/rc4: invalid key size''))
      else (Some (rc4_init key), None))"

section \<open>The helpers, from the spec\<close>

text \<open>
  Modelled from the spec: \<open>sign\<close>, the function \<open>GetMIC\<close> calls, is not in the
  sources at hand. Section 4.4: "computes an HMAC-MD5 over sequenceNumber || plaintext
  using the direction's signing key, takes the first 8 bytes, optionally encrypts those
  8 bytes through the direction's stream cipher when key-exchange was negotiated, and
  assembles a 16-byte signature record: version(4)=1 || checksum(8) || sequenceNumber(4);
  then increments the sequence counter". The arguments are those of the call in
  \<open>GetMIC\<close>; the record is appended to the first one. The counter is a \<open>uint32\<close>:
  the increment wraps. With no cipher behind the handle the encryption dereferences a
  nil pointer.
\<close>

definition sign_spec ::
  "ntlm_consts \<Rightarrow> (bytes \<Rightarrow> bytes \<Rightarrow> bytes) \<Rightarrow> ('c \<Rightarrow> bytes \<Rightarrow> bytes \<times> 'c)
     \<Rightarrow> bytes \<Rightarrow> u32 \<Rightarrow> 'c option \<Rightarrow> bytes \<Rightarrow> u32 \<Rightarrow> bytes
     \<Rightarrow> (bytes \<times> u32 \<times> 'c option) option" where
  "sign_spec K hmac xorKeyStream dst flags handle signingKey seqNum bs =
    (let checksum = take 8 (hmac signingKey (le32 seqNum @ bs)) in
     if flags AND NegotiateKeyExch K \<noteq> 0 then
       (case handle of
          None \<Rightarrow> None
        | Some c \<Rightarrow>
            (case xorKeyStream c checksum of
               (sealed, c') \<Rightarrow> Some (dst @ le32 1 @ sealed @ le32 seqNum, seqNum + 1, Some c')))
     else Some (dst @ le32 1 @ checksum @ le32 seqNum, seqNum + 1, handle))"

text \<open>
  Modelled from the spec: \<open>extractFields\<close> is not in the sources at hand. Section 4.1:
  a field descriptor is \<open>(len:u16, maxlen:u16, offset:u32)\<close>, and "decode must validate
  offset+len <= bufferLength and fail with a length/bounds error otherwise".
\<close>

definition extractFields_spec :: "bytes \<Rightarrow> bytes \<Rightarrow> fault + bytes" where
  "extractFields_spec desc buf =
     (let len = unat (Uint16 desc 0); offset = unat (Uint32 desc 4) in
      if length buf < offset + len then Inl (Error ''field out of bounds'')
      else Inr (slice buf offset (offset + len)))"

text \<open>
  Modelled from the spec: the constants of the package are declared outside the sources
  at hand. The message types are those of section 4.1; the signature, the version and
  the flag bits, which the spec names without their values, are those of the NTLM
  protocol; the default flags of the second listing are taken to be those the first
  listing spells out.
\<close>

definition nlmp_consts :: ntlm_consts where
  "nlmp_consts =
     \<lparr>Signature = [0x4e, 0x54, 0x4c, 0x4d, 0x53, 0x53, 0x50, 0x00],
      ClientVersion = [6, 1, 0xb1, 0x1d, 0, 0, 0, 15],
      MessageTypeNtLmNegotiate = 1,
      MessageTypeNtLmChallenge = 2,
      MessageTypeNtLmAuthenticate = 3,
      Negotiate56 = 0x80000000,
      Negotiate128 = 0x20000000,
      NegotiateKeyExch = 0x40000000,
      NegotiateTargetInfo = 0x00800000,
      NegotiateExtendedSecurity = 0x00080000,
      NegotiateAlwaysSign = 0x00008000,
      NegotiateNTLM = 0x00000200,
      NegotiateSign = 0x00000010,
      RequestTarget = 0x00000004,
      NegotiateUnicode = 0x00000001,
      NegotiateVersion = 0x02000000,
      NegotiateDomainSupplied = 0x00001000,
      NegotiateWorkstationSupplied = 0x00002000,
      NegotiateOEM = 0x00000002,
      NegotiateOEMDomainSupplied = 0x00001000,
      NegotiateOEMWorkstationSupplied = 0x00002000,
      DefaultNegotiateFlags = 0xe2888215\<rparr>"

text \<open>
  \<open>ToUnicode\<close>, \<open>encoder.StrToUTF16\<close> and \<open>strings.ToUpper\<close> on ASCII strings, which
  is what the runs below use.
\<close>

definition utf16le_ascii :: "string \<Rightarrow> bytes" where
  "utf16le_ascii s = concat (map (\<lambda>c. [of_nat (of_char c), 0]) s)"

definition ascii_upper :: "string \<Rightarrow> string" where
  "ascii_upper s =
     map (\<lambda>c. if (97 :: nat) \<le> of_char c \<and> of_char c \<le> (122 :: nat)
              then char_of (of_char c - (32 :: nat)) else c) s"

text \<open>
  Modelled from the spec: \<open>NewNtChallengeResponse\<close> is not in the sources at hand.
  Section 4.3: the NTLMv2 hash is HMAC-MD5 of the NTLM hash over the UTF-16LE of the
  uppercased user followed by the domain; the response is the HMAC-MD5 under that hash
  of the server challenge and \<open>temp\<close>, followed by \<open>temp\<close>; the session base key is
  the HMAC-MD5 of that HMAC output; the key-exchange key is the session base key; the
  exported session key is a fresh key, RC4-encrypted under the key-exchange key, when
  key exchange is negotiated, and the key-exchange key otherwise. Time and randomness are
  inputs the model fixes: the timestamp is zero, the client challenge is eight bytes
  \<open>0xaa\<close>, the fresh key sixteen bytes \<open>0x55\<close>. The NTLM hash is the session's
  \<open>Hash\<close>.
\<close>

definition NewNtChallengeResponse_spec ::
  "(bytes, rc4_cipher) NtlmProvider \<Rightarrow> bytes
     \<Rightarrow> (fault + bytes) \<times> (bytes, rc4_cipher) NtlmProvider" where
  "NewNtChallengeResponse_spec n targetName =
    (let clientChallenge = replicate 8 0xaa;
         ntlmv2Hash = hmac_md5_impl (Hash n) (utf16le_ascii (ascii_upper (User n) @ Domain n));
         temp = [1, 1, 0, 0, 0, 0, 0, 0] @ replicate 8 0 @ clientChallenge @ [0, 0, 0, 0]
                  @ (case TargetInfo n of None \<Rightarrow> [] | Some ti \<Rightarrow> ti) @ [0, 0, 0, 0];
         ntProof = hmac_md5_impl ntlmv2Hash (ServerChallenge n @ temp);
         sessionBaseKey = hmac_md5_impl ntlmv2Hash ntProof;
         keyExch = (NegotiateFlags n AND NegotiateKeyExch nlmp_consts \<noteq> 0);
         exported = (if keyExch then replicate 16 0x55 else sessionBaseKey);
         encrypted = (if keyExch then fst (rc4_xor (rc4_init sessionBaseKey) exported) else [])
     in (Inr (ntProof @ temp),
         n\<lparr>ClientChallenge := clientChallenge, SessionBaseKey := sessionBaseKey,
           KeyExchangeKey := sessionBaseKey, ExportedSessionKey := exported,
           RandomSessionKey := encrypted\<rparr>))"

text \<open>
  Modelled from the spec: \<open>sealKey\<close> is not in the sources at hand. Section 4.3: MD5 of
  the exported session key and the magic constant, "truncated to the negotiated key
  length (5/7/16 bytes)".
\<close>

definition sealKey_spec :: "bytes \<Rightarrow> bytes \<Rightarrow> u32 \<Rightarrow> fault + bytes" where
  "sealKey_spec key magic flags =
     Inr (take (if flags AND Negotiate128 nlmp_consts \<noteq> 0 then 16
                else if flags AND Negotiate56 nlmp_consts \<noteq> 0 then 7 else 5)
            (md5 (key @ magic)))"

text \<open>
  The helpers together. The AV pairs and the target information stay the bytes of the
  CHALLENGE; the LM response is the 24 zero bytes of section 4.3; a signing key is the
  MD5 of the exported session key and the magic constant.
\<close>

definition nlmp_helpers :: "(bytes, bytes, rc4_cipher) ntlm_helpers" where
  "nlmp_helpers =
     \<lparr>extractFields = extractFields_spec,
      NewAvPairs = Inr,
      NewTargetInformation = (\<lambda>av. (Some av, None)),
      NewLMChallengeResponse = (\<lambda>n. (Some (replicate 24 0), n)),
      NewNtChallengeResponse = NewNtChallengeResponse_spec,
      ToUnicode = utf16le_ascii,
      StrToUTF16 = utf16le_ascii,
      ToUpper = ascii_upper,
      signKey = (\<lambda>key magic flags. (md5 (key @ magic), None)),
      sealKey = sealKey_spec,
      sign = sign_spec nlmp_consts hmac_md5_impl rc4_xor,
      hmac_md5 = hmac_md5_impl,
      rc4_NewCipher = rc4_NewCipher_impl,
      rc4_XORKeyStream = rc4_xor\<rparr>"

text \<open>A caller's session and a CHALLENGE with the default flags and an empty list of AV pairs.\<close>

definition session0 :: "(bytes, rc4_cipher) NtlmProvider" where
  "session0 =
     new_provider ''User'' ''Password''
       [0xa4, 0xf4, 0x9c, 0x40, 0x65, 0x10, 0xbd, 0xca, 0xb6, 0x82, 0x4e, 0xe7, 0xc3, 0x0f,
        0xd8, 0x52]
       ''Domain'' ''COMPUTER''"

definition challenge0 :: bytes where
  "challenge0 =
     [0x4e, 0x54, 0x4c, 0x4d, 0x53, 0x53, 0x50, 0x00,  2, 0, 0, 0,
      0, 0, 0, 0, 56, 0, 0, 0,  0x15, 0x82, 0x88, 0xe2,
      0x01, 0x23, 0x45, 0x67, 0x89, 0xab, 0xcd, 0xef,  0, 0, 0, 0, 0, 0, 0, 0,
      4, 0, 4, 0, 56, 0, 0, 0,  6, 1, 0xb1, 0x1d, 0, 0, 0, 15,
      0, 0, 0, 0]"

text \<open>
  The session after \<open>InitSecContext\<close>, and after \<open>AcceptSecContext\<close> on the
  CHALLENGE above.
\<close>

definition session1 :: "(bytes, rc4_cipher) NtlmProvider" where
  "session1 = snd (InitSecContext nlmp_consts nlmp_helpers session0)"

definition session2 :: "(bytes, rc4_cipher) NtlmProvider" where
  "session2 = snd (AcceptSecContext nlmp_consts nlmp_helpers session1 challenge0)"

text \<open>
  A session prepared for signing without key exchange: the caller sets the flags to the
  default set less \<open>NegotiateKeyExch\<close> and calls \<open>InitSecContext\<close>, nothing else.
\<close>

definition session1_nokx :: "(bytes, rc4_cipher) NtlmProvider" where
  "session1_nokx =
     snd (InitSecContext nlmp_consts nlmp_helpers (session0\<lparr>NegotiateFlags := 0xa2888215\<rparr>))"


text \<open>The three strings of the session that go into the AUTHENTICATE message.\<close>

definition names :: "('ti, 'c) NtlmProvider \<Rightarrow> string \<times> string \<times> string" where
  "names n = (Domain n, User n, Workstation n)"

section \<open>Writes into a buffer and reads from it\<close>

lemma length_copy_bytes: "lo \<le> hi \<Longrightarrow> hi \<le> length dst \<Longrightarrow> length (copy_bytes dst lo hi src) = length dst"
  by (auto simp: copy_bytes_def min_def)

lemma nth_copy_bytes_below: "i < lo \<Longrightarrow> lo \<le> length dst \<Longrightarrow> copy_bytes dst lo hi src ! i = dst ! i"
  by (simp add: copy_bytes_def nth_append)

lemma nth_copy_bytes_above:
  "hi \<le> i \<Longrightarrow> lo \<le> hi \<Longrightarrow> hi \<le> length dst \<Longrightarrow> i < length dst \<Longrightarrow> copy_bytes dst lo hi src ! i = dst ! i"
  by (auto simp: copy_bytes_def nth_append min_def)

lemma length_PutUint16: "length (PutUint16 b lo v) = length b"
  by (simp add: PutUint16_def)

lemma length_PutUint32: "length (PutUint32 b lo v) = length b"
  by (simp add: PutUint32_def)

lemma nth_PutUint16_other: "i < lo \<or> lo + 2 \<le> i \<Longrightarrow> PutUint16 b lo v ! i = b ! i"
  by (auto simp: PutUint16_def)

lemma nth_PutUint32_other: "i < lo \<or> lo + 4 \<le> i \<Longrightarrow> PutUint32 b lo v ! i = b ! i"
  by (auto simp: PutUint32_def)

lemma le32_roundtrip:
  "ucast (ucast v :: byte) OR push_bit 8 (ucast (ucast (drop_bit 8 v) :: byte))
     OR push_bit 16 (ucast (ucast (drop_bit 16 v) :: byte))
     OR push_bit 24 (ucast (ucast (drop_bit 24 v) :: byte)) = (v :: u32)" (is "?l = _")
proof (rule bit_word_eqI)
  fix n assume "n < LENGTH(32)"
  then have n: "n < 32" by simp
  consider "n < 8" | "8 \<le> n" "n < 16" | "16 \<le> n" "n < 24" | "24 \<le> n"
    by linarith
  then show "bit ?l n = bit v n"
    using n by cases (auto simp: bit_simps)
qed

lemma le16_roundtrip:
  "ucast (ucast v :: byte) OR push_bit 8 (ucast (ucast (drop_bit 8 v) :: byte)) = (v :: u16)"
    (is "?l = _")
proof (rule bit_word_eqI)
  fix n assume "n < LENGTH(16)"
  then have n: "n < 16" by simp
  consider "n < 8" | "8 \<le> n" by linarith
  then show "bit ?l n = bit v n"
    using n by cases (auto simp: bit_simps)
qed

lemma Uint32_PutUint32: "lo + 4 \<le> length b \<Longrightarrow> Uint32 (PutUint32 b lo v) lo = v"
  by (simp add: Uint32_def PutUint32_def le32_roundtrip)

lemma Uint16_PutUint16: "lo + 2 \<le> length b \<Longrightarrow> Uint16 (PutUint16 b lo v) lo = v"
  by (simp add: Uint16_def PutUint16_def le16_roundtrip)

lemma Uint32_PutUint16_other:
  "lo + 4 \<le> lo' \<or> lo' + 2 \<le> lo \<Longrightarrow> Uint32 (PutUint16 b lo' v) lo = Uint32 b lo"
  by (auto simp: Uint32_def nth_PutUint16_other)

lemma Uint32_PutUint32_other:
  "lo + 4 \<le> lo' \<or> lo' + 4 \<le> lo \<Longrightarrow> Uint32 (PutUint32 b lo' v) lo = Uint32 b lo"
  by (auto simp: Uint32_def nth_PutUint32_other)

lemma Uint16_PutUint16_other:
  "lo + 2 \<le> lo' \<or> lo' + 2 \<le> lo \<Longrightarrow> Uint16 (PutUint16 b lo' v) lo = Uint16 b lo"
  by (auto simp: Uint16_def nth_PutUint16_other)

lemma Uint16_PutUint32_other:
  "lo + 2 \<le> lo' \<or> lo' + 4 \<le> lo \<Longrightarrow> Uint16 (PutUint32 b lo' v) lo = Uint16 b lo"
  by (auto simp: Uint16_def nth_PutUint32_other)

lemma Uint32_copy_bytes_other:
  "lo' \<le> hi \<Longrightarrow> hi \<le> length b \<Longrightarrow> lo + 4 \<le> lo' \<or> (hi \<le> lo \<and> lo + 4 \<le> length b)
     \<Longrightarrow> Uint32 (copy_bytes b lo' hi src) lo = Uint32 b lo"
  by (auto simp: Uint32_def nth_copy_bytes_below nth_copy_bytes_above)

lemma Uint16_copy_bytes_other:
  "lo' \<le> hi \<Longrightarrow> hi \<le> length b \<Longrightarrow> lo + 2 \<le> lo' \<or> (hi \<le> lo \<and> lo + 2 \<le> length b)
     \<Longrightarrow> Uint16 (copy_bytes b lo' hi src) lo = Uint16 b lo"
  by (auto simp: Uint16_def nth_copy_bytes_below nth_copy_bytes_above)

lemma Uint32_append: "lo + 4 \<le> length b \<Longrightarrow> Uint32 (b @ c) lo = Uint32 b lo"
  by (simp add: Uint32_def nth_append)

lemma Uint16_append: "lo + 2 \<le> length b \<Longrightarrow> Uint16 (b @ c) lo = Uint16 b lo"
  by (simp add: Uint16_def nth_append)

lemmas buffer_simps =
  length_copy_bytes length_PutUint16 length_PutUint32
  Uint32_PutUint32 Uint16_PutUint16
  Uint32_PutUint16_other Uint32_PutUint32_other Uint16_PutUint16_other Uint16_PutUint32_other
  Uint32_copy_bytes_other Uint16_copy_bytes_other Uint32_append Uint16_append

section \<open>The flags of the NEGOTIATE message\<close>

lemma InitSecContext_result:
  "fst (InitSecContext K H n) = Inr (NegotiateMessage (snd (InitSecContext K H n)))"
  by (simp add: InitSecContext_def Let_def split: prod.splits)

lemma InitSecContext_flags:
  "NegotiateFlags (snd (InitSecContext K H n)) =
     (if NegotiateFlags n = 0 then default_flags K else NegotiateFlags n)
       OR (if Domain n \<noteq> [] then NegotiateDomainSupplied K else 0)
       OR (if Workstation n \<noteq> [] then NegotiateWorkstationSupplied K else 0)"
  by (simp add: InitSecContext_def Let_def default_flags_def or.assoc split: prod.splits)

lemma InitSecContext_flags_field:
  "Uint32 (NegotiateMessage (snd (InitSecContext K H n))) 12 =
     NegotiateFlags (snd (InitSecContext K H n))"
  by (simp add: InitSecContext_def Let_def buffer_simps split: prod.splits)

lemma InitSecContext_oem_result:
  "fst (InitSecContext_oem K H n) = Inr (NegotiateMessage (snd (InitSecContext_oem K H n)))"
  by (simp add: InitSecContext_oem_def Let_def split: prod.splits)

lemma InitSecContext_oem_flags:
  "NegotiateFlags (snd (InitSecContext_oem K H n)) =
     (if IsOEM n
      then (if NegotiateFlags n = 0 then DefaultNegotiateFlags K else NegotiateFlags n)
             OR NegotiateOEM K
             OR (if Domain n \<noteq> [] then NegotiateOEMDomainSupplied K else 0)
             OR (if Workstation n \<noteq> [] then NegotiateOEMWorkstationSupplied K else 0)
      else (if NegotiateFlags n = 0 then DefaultNegotiateFlags K else NegotiateFlags n))"
  by (simp add: InitSecContext_oem_def Let_def or.assoc split: prod.splits)

lemma InitSecContext_oem_flags_field:
  "Uint32 (NegotiateMessage (snd (InitSecContext_oem K H n))) 12 =
     NegotiateFlags (snd (InitSecContext_oem K H n))"
  by (simp add: InitSecContext_oem_def Let_def buffer_simps split: prod.splits)

text \<open>
  C2, as the code has it. \<open>InitSecContext\<close> always returns a message, and the
  little-endian u32 at offset 12 of it is: the flags the caller set, or the default set
  when the caller left them at zero, with \<open>NegotiateDomainSupplied\<close> added when
  \<open>Domain\<close> is not empty and \<open>NegotiateWorkstationSupplied\<close> added when
  \<open>Workstation\<close> is not empty (first listing); in the second listing, the caller's
  flags or \<open>DefaultNegotiateFlags\<close>, with \<open>NegotiateOEM\<close> and, for a non-empty
  \<open>Domain\<close> or \<open>Workstation\<close>, the two OEM-supplied bits added when \<open>IsOEM\<close> is
  set. The same value is left in the session's \<open>NegotiateFlags\<close>. So the decoded flags
  are exactly the requested (or default) ones only where nothing is added.
\<close>

theorem InitSecContext_flags_decoded:
  "(\<exists>msg. fst (InitSecContext K H n) = Inr msg
      \<and> Uint32 msg 12 =
          (if NegotiateFlags n = 0 then default_flags K else NegotiateFlags n)
            OR (if Domain n \<noteq> [] then NegotiateDomainSupplied K else 0)
            OR (if Workstation n \<noteq> [] then NegotiateWorkstationSupplied K else 0)
      \<and> NegotiateFlags (snd (InitSecContext K H n)) = Uint32 msg 12)
   \<and> (\<exists>msg. fst (InitSecContext_oem K H n) = Inr msg
      \<and> Uint32 msg 12 =
          (if IsOEM n
           then (if NegotiateFlags n = 0 then DefaultNegotiateFlags K else NegotiateFlags n)
                  OR NegotiateOEM K
                  OR (if Domain n \<noteq> [] then NegotiateOEMDomainSupplied K else 0)
                  OR (if Workstation n \<noteq> [] then NegotiateOEMWorkstationSupplied K else 0)
           else (if NegotiateFlags n = 0 then DefaultNegotiateFlags K else NegotiateFlags n))
      \<and> NegotiateFlags (snd (InitSecContext_oem K H n)) = Uint32 msg 12)"
  by (simp add: InitSecContext_result InitSecContext_oem_result InitSecContext_flags_field
        InitSecContext_oem_flags_field InitSecContext_flags InitSecContext_oem_flags)

lemma session0_negotiate:
  "fst (InitSecContext nlmp_consts nlmp_helpers session0) =
     Inr [78, 84, 76, 77, 83, 83, 80, 0, 1, 0, 0, 0, 21, 178, 136, 226, 12, 0,
      12, 0, 40, 0, 0, 0, 16, 0, 16, 0, 52, 0, 0, 0, 6, 1, 177, 29, 0, 0, 0,
      15, 68, 0, 111, 0, 109, 0, 97, 0, 105, 0, 110, 0, 67, 0, 79, 0, 77, 0,
      80, 0, 85, 0, 84, 0, 69, 0, 82, 0]"
  by code_simp

text \<open>
  C2, as stated, fails: a caller who leaves \<open>NegotiateFlags\<close> at zero and sets
  \<open>Domain\<close> (and \<open>Workstation\<close>) gets a NEGOTIATE message whose flags field decodes
  to \<open>0xe288b215\<close>, which is not the default set \<open>0xe2888215\<close>.
\<close>

theorem InitSecContext_flags_counterexample:
  "NegotiateFlags session0 = 0
   \<and> Domain session0 = ''Domain''
   \<and> Uint32 (projr (fst (InitSecContext nlmp_consts nlmp_helpers session0))) 12 = 0xe288b215
   \<and> default_flags nlmp_consts = 0xe2888215"
proof -
  have "Uint32 (projr (fst (InitSecContext nlmp_consts nlmp_helpers session0))) 12 = 0xe288b215"
    unfolding session0_negotiate by (simp add: Uint32_def)
  moreover have "default_flags nlmp_consts = 0xe2888215"
    by (simp add: default_flags_def nlmp_consts_def)
  moreover have "NegotiateFlags session0 = 0" "Domain session0 = ''Domain''"
    by (simp_all add: session0_def new_provider_def)
  ultimately show ?thesis by simp
qed

section \<open>Early rejection of a CHALLENGE\<close>

text \<open>
  C3. For every input buffer shorter than 48 bytes, \<open>AcceptSecContext\<close> returns the
  error of line 183, "invalid challenge message length" (the error the spec files under
  MalformedMessage: buffer too short), and the session it leaves is the session it was
  given, field by field.
\<close>

theorem AcceptSecContext_short_buffer:
  assumes "length sc < 48"
  shows "AcceptSecContext K H n sc = (Inl (Error ''invalid challenge message length''), n)"
  using assms by (simp add: AcceptSecContext_def)

theorem AcceptSecContext_short_buffer_witness:
  "length (take 47 challenge0) < 48
   \<and> AcceptSecContext nlmp_consts nlmp_helpers session0 (take 47 challenge0)
       = (Inl (Error ''invalid challenge message length''), session0)"
  using AcceptSecContext_short_buffer [of "take 47 challenge0" nlmp_consts nlmp_helpers session0]
  by (simp add: challenge0_def)

text \<open>
  C4. For every input buffer of at least 48 bytes whose first 8 bytes differ from the
  signature constant, or whose little-endian u32 at offset 8 differs from 2 (the value
  of \<open>MessageTypeNtLmChallenge\<close>), \<open>AcceptSecContext\<close> returns an error value, not a
  panic: "invalid signature" in the first case, "invalid message type" otherwise. The
  session is left as it was.
\<close>

theorem AcceptSecContext_bad_signature_or_type:
  assumes "MessageTypeNtLmChallenge K = 2"
      and "48 \<le> length sc"
      and "slice sc 0 8 \<noteq> Signature K \<or> Uint32 sc 8 \<noteq> 2"
  shows "AcceptSecContext K H n sc =
           (Inl (Error (if slice sc 0 8 \<noteq> Signature K then ''invalid signature''
                        else ''invalid message type'')), n)"
  using assms by (auto simp: AcceptSecContext_def)

theorem AcceptSecContext_bad_signature_or_type_witness:
  "MessageTypeNtLmChallenge nlmp_consts = 2
   \<and> 48 \<le> length (challenge0[8 := 1])
   \<and> Uint32 (challenge0[8 := 1]) 8 \<noteq> 2
   \<and> AcceptSecContext nlmp_consts nlmp_helpers session0 (challenge0[8 := 1])
       = (Inl (Error ''invalid message type''), session0)"
proof -
  have a: "MessageTypeNtLmChallenge nlmp_consts = 2"
    by (simp add: nlmp_consts_def)
  have b: "48 \<le> length (challenge0[8 := 1])"
    by (simp add: challenge0_def)
  have c: "Uint32 (challenge0[8 := 1]) 8 \<noteq> 2"
    by (simp add: challenge0_def Uint32_def)
  have d: "slice (challenge0[8 := 1]) 0 8 = Signature nlmp_consts"
    by (simp add: challenge0_def slice_def nlmp_consts_def)
  from c have "slice (challenge0[8 := 1]) 0 8 \<noteq> Signature nlmp_consts
                 \<or> Uint32 (challenge0[8 := 1]) 8 \<noteq> 2" ..
  from AcceptSecContext_bad_signature_or_type [OF a b this, of nlmp_helpers session0] a b c d
  show ?thesis by simp
qed

text \<open>
  C5. For every CHALLENGE that passes the length, signature and type checks and whose
  flags, ANDed with the session's negotiate flags, lack \<open>RequestTarget\<close> or lack
  \<open>NegotiateTargetInfo\<close>, \<open>AcceptSecContext\<close> fails and produces no AUTHENTICATE
  message; when the target-name field decodes, the failure is the error "invalid
  negotiate flags" of line 208. The session is left as it was.
\<close>

theorem AcceptSecContext_flags_rejected:
  assumes "48 \<le> length sc"
      and "slice sc 0 8 = Signature K"
      and "Uint32 sc 8 = MessageTypeNtLmChallenge K"
      and "NegotiateFlags n AND Uint32 sc 20 AND RequestTarget K = 0
           \<or> NegotiateFlags n AND Uint32 sc 20 AND NegotiateTargetInfo K = 0"
  shows "(\<exists>e. AcceptSecContext K H n sc = (Inl e, n))
         \<and> (\<forall>targetName. extractFields H (slice sc 12 20) sc = Inr targetName
               \<longrightarrow> AcceptSecContext K H n sc = (Inl (Error ''invalid negotiate flags''), n))"
  using assms by (auto simp: AcceptSecContext_def Let_def split: sum.splits)

theorem AcceptSecContext_flags_rejected_witness:
  "48 \<le> length (challenge0[22 := 0x08])
   \<and> slice (challenge0[22 := 0x08]) 0 8 = Signature nlmp_consts
   \<and> Uint32 (challenge0[22 := 0x08]) 8 = MessageTypeNtLmChallenge nlmp_consts
   \<and> (NegotiateFlags (session0\<lparr>NegotiateFlags := 0xe2888215\<rparr>)
          AND Uint32 (challenge0[22 := 0x08]) 20 AND RequestTarget nlmp_consts = 0
        \<or> NegotiateFlags (session0\<lparr>NegotiateFlags := 0xe2888215\<rparr>)
          AND Uint32 (challenge0[22 := 0x08]) 20 AND NegotiateTargetInfo nlmp_consts = 0)
   \<and> AcceptSecContext nlmp_consts nlmp_helpers (session0\<lparr>NegotiateFlags := 0xe2888215\<rparr>)
         (challenge0[22 := 0x08])
       = (Inl (Error ''invalid negotiate flags''), session0\<lparr>NegotiateFlags := 0xe2888215\<rparr>)"
proof -
  have a: "48 \<le> length (challenge0[22 := 0x08])"
    by (simp add: challenge0_def)
  have b: "slice (challenge0[22 := 0x08]) 0 8 = Signature nlmp_consts"
    by (simp add: challenge0_def slice_def nlmp_consts_def)
  have c: "Uint32 (challenge0[22 := 0x08]) 8 = MessageTypeNtLmChallenge nlmp_consts"
    by (simp add: challenge0_def Uint32_def nlmp_consts_def)
  have d: "NegotiateFlags (session0\<lparr>NegotiateFlags := 0xe2888215\<rparr>)
          AND Uint32 (challenge0[22 := 0x08]) 20 AND NegotiateTargetInfo nlmp_consts = 0"
    by (simp add: challenge0_def Uint32_def nlmp_consts_def)
  have e: "extractFields nlmp_helpers (slice (challenge0[22 := 0x08]) 12 20)
             (challenge0[22 := 0x08]) = Inr []"
    by (simp add: challenge0_def nlmp_helpers_def extractFields_spec_def slice_def
          Uint16_def Uint32_def)
  from d have "NegotiateFlags (session0\<lparr>NegotiateFlags := 0xe2888215\<rparr>)
          AND Uint32 (challenge0[22 := 0x08]) 20 AND RequestTarget nlmp_consts = 0
        \<or> NegotiateFlags (session0\<lparr>NegotiateFlags := 0xe2888215\<rparr>)
          AND Uint32 (challenge0[22 := 0x08]) 20 AND NegotiateTargetInfo nlmp_consts = 0" ..
  from AcceptSecContext_flags_rejected [OF a b c this, of nlmp_helpers] a b c d e
  show ?thesis by simp
qed

section \<open>The AUTHENTICATE message\<close>

lemma slice_copy_bytes_same:
  "lo \<le> hi \<Longrightarrow> hi \<le> length dst \<Longrightarrow> hi - lo \<le> length src
     \<Longrightarrow> slice (copy_bytes dst lo hi src) lo hi = take (hi - lo) src"
  by (simp add: slice_def copy_bytes_def min_def)

lemma length_authenticate_fixed [simp]:
  "length (authenticate_fixed K lm nt d u w k f) = 88"
  by (simp add: authenticate_fixed_def Let_def buffer_simps)

lemma mic_authenticate_fixed:
  "slice (authenticate_fixed K lm nt d u w k f) 72 88 = replicate 16 0"
  by (simp add: authenticate_fixed_def Let_def buffer_simps slice_copy_bytes_same)

lemma fields_authenticate_fixed:
  "Uint16 (authenticate_fixed K lm nt d u w k f) 28 = of_nat d"
  "Uint32 (authenticate_fixed K lm nt d u w k f) 32 = of_nat (88 + lm + nt)"
  "Uint16 (authenticate_fixed K lm nt d u w k f) 36 = of_nat u"
  "Uint32 (authenticate_fixed K lm nt d u w k f) 40 = of_nat (88 + lm + nt + d)"
  "Uint16 (authenticate_fixed K lm nt d u w k f) 44 = of_nat w"
  "Uint32 (authenticate_fixed K lm nt d u w k f) 48 = of_nat (88 + lm + nt + d + u)"
  by (simp_all add: authenticate_fixed_def Let_def buffer_simps)

lemma copy_mic_unchanged:
  assumes "length F = 88" and "slice F 72 88 = replicate 16 0"
  shows "copy_bytes (F @ P) 72 88 (slice F 72 88 @ h) = F @ P"
proof -
  have "F = take 72 F @ slice F 72 88"
    using assms(1) by (simp add: slice_def)
  then have F: "F = take 72 F @ replicate 16 0"
    using assms(2) by simp
  have "copy_bytes (F @ P) 72 88 (slice F 72 88 @ h) = take 72 F @ replicate 16 0 @ P"
    using assms by (simp add: copy_bytes_def min_def)
  with F show ?thesis by (metis append.assoc)
qed

lemma AcceptSecContext_keys_Inr:
  assumes "AcceptSecContext_keys K H n = (Inr msg, n')"
  shows "msg = AuthenticateMessage n \<and> AuthenticateMessage n' = AuthenticateMessage n
         \<and> Domain n' = Domain n \<and> User n' = User n \<and> Workstation n' = Workstation n
         \<and> RandomSessionKey n' = RandomSessionKey n
         \<and> ExportedSessionKey n' = ExportedSessionKey n
         \<and> NegotiateMessage n' = NegotiateMessage n
         \<and> NegotiateFlags n' = NegotiateFlags n
         \<and> SequenceNumber n' = SequenceNumber n"
  using assms
  by (auto simp: AcceptSecContext_keys_def Let_def
        split: prod.splits option.splits fault.splits sum.splits)


lemma copy_mic_again:
  assumes "length A = 88"
  shows "copy_bytes (copy_bytes A 72 88 (replicate 16 0) @ P) 72 88
           (slice (copy_bytes A 72 88 (replicate 16 0)) 72 88 @ h)
         = copy_bytes A 72 88 (replicate 16 0) @ P"
  using assms
  by (intro copy_mic_unchanged) (simp_all add: length_copy_bytes slice_copy_bytes_same)

lemma AcceptSecContext_message_unfold:
  "AcceptSecContext_message K H n targetName =
    (case NewLMChallengeResponse H n of
       (None, na) \<Rightarrow> (Inl (Panic ''NewLMChallengeResponse''), na)
     | (Some lm, na) \<Rightarrow>
    (case NewNtChallengeResponse H na targetName of
       (Inl e, nb) \<Rightarrow> (Inl e, nb)
     | (Inr nt, nb) \<Rightarrow>
    (let domain = ToUnicode H (ToUpper H (Domain nb));
         user = ToUnicode H (ToUpper H (User nb));
         workstation = ToUnicode H (ToUpper H (Workstation nb));
         fixed = authenticate_fixed K (length lm) (length nt) (length domain) (length user)
                   (length workstation) (length (RandomSessionKey nb)) (NegotiateFlags nb)
     in AcceptSecContext_keys K H
          (nb\<lparr>AuthenticateMessage :=
                 fixed @ lm @ nt @ domain @ user @ workstation @ RandomSessionKey nb\<rparr>))))"
  by (simp add: AcceptSecContext_message_def authenticate_fixed_def Let_def copy_mic_again
        buffer_simps split: prod.splits option.splits sum.splits)

lemma AcceptSecContext_message_Inr:
  assumes "AcceptSecContext_message K H n targetName = (Inr msg, n')"
  shows "\<exists>lm nt.
           msg = authenticate_fixed K (length lm) (length nt)
                   (length (ToUnicode H (ToUpper H (Domain n'))))
                   (length (ToUnicode H (ToUpper H (User n'))))
                   (length (ToUnicode H (ToUpper H (Workstation n'))))
                   (length (RandomSessionKey n')) (NegotiateFlags n')
                 @ lm @ nt @ ToUnicode H (ToUpper H (Domain n'))
                 @ ToUnicode H (ToUpper H (User n'))
                 @ ToUnicode H (ToUpper H (Workstation n')) @ RandomSessionKey n'"
proof -
  from assms obtain lm nt nb where
    keys: "AcceptSecContext_keys K H
             (nb\<lparr>AuthenticateMessage :=
                   authenticate_fixed K (length lm) (length nt)
                     (length (ToUnicode H (ToUpper H (Domain nb))))
                     (length (ToUnicode H (ToUpper H (User nb))))
                     (length (ToUnicode H (ToUpper H (Workstation nb))))
                     (length (RandomSessionKey nb)) (NegotiateFlags nb)
                   @ lm @ nt @ ToUnicode H (ToUpper H (Domain nb))
                   @ ToUnicode H (ToUpper H (User nb))
                   @ ToUnicode H (ToUpper H (Workstation nb)) @ RandomSessionKey nb\<rparr>)
           = (Inr msg, n')"
    by (auto simp: AcceptSecContext_message_unfold Let_def
          split: prod.splits option.splits sum.splits)
  from AcceptSecContext_keys_Inr [OF keys] show ?thesis
    by (intro exI [of _ lm] exI [of _ nt]) simp
qed

lemma AcceptSecContext_Inr:
  assumes "AcceptSecContext K H n sc = (Inr msg, n')"
  shows "\<exists>n1 targetName. AcceptSecContext_message K H n1 targetName = (Inr msg, n')"
  using assms
  by (auto simp: AcceptSecContext_def Let_def
        split: if_splits prod.splits option.splits sum.splits fault.splits)

lemma AcceptSecContext_keys_names:
  assumes "AcceptSecContext_keys K H n = (Inr msg, n')"
  shows "names n' = names n"
  using AcceptSecContext_keys_Inr [OF assms] by (simp add: names_def)

lemma AcceptSecContext_message_names:
  assumes "AcceptSecContext_message K H n targetName = (Inr msg, n')"
  shows "names n' =
           names (snd (NewNtChallengeResponse H (snd (NewLMChallengeResponse H n)) targetName))"
  using assms
  by (auto simp: AcceptSecContext_message_unfold Let_def names_def
        split: prod.splits option.splits sum.splits dest!: AcceptSecContext_keys_Inr)

lemma AcceptSecContext_Inr_names:
  assumes "AcceptSecContext K H n sc = (Inr msg, n')"
  shows "\<exists>n1 targetName. AcceptSecContext_message K H n1 targetName = (Inr msg, n')
           \<and> names n1 = names n"
  using assms
  by (auto simp: AcceptSecContext_def Let_def names_def
        split: if_splits prod.splits option.splits sum.splits fault.splits)

lemma unat_of_nat_u32: "x < 2 ^ 32 \<Longrightarrow> unat (of_nat x :: u32) = x"
  by (simp add: unat_of_nat)

lemma unat_of_nat_u16: "x < 2 ^ 16 \<Longrightarrow> unat (of_nat x :: u16) = x"
  by (simp add: unat_of_nat)

lemma field_bytes_append:
  assumes "length F = 88"
      and "Uint16 F pos = of_nat (length x)" and "Uint32 F (pos + 4) = of_nat (88 + length pre)"
      and "pos + 8 \<le> 88"
      and "length x < 2 ^ 16" and "88 + length pre < 2 ^ 32"
  shows "field_bytes (F @ pre @ x @ post) pos = x"
proof -
  have o: "unat (Uint32 (F @ pre @ x @ post) (pos + 4)) = 88 + length pre"
    using assms(1,4) by (simp only: Uint32_append assms(3) unat_of_nat_u32 [OF assms(6)])
  have l: "unat (Uint16 (F @ pre @ x @ post) pos) = length x"
    using assms(1,4) by (simp only: Uint16_append assms(2) unat_of_nat_u16 [OF assms(5)])
  show ?thesis
    unfolding field_bytes_def o l by (simp add: slice_def assms(1))
qed

section \<open>A run of the whole exchange\<close>

lemma length_le32 [simp]: "length (le32 v) = 4"
  by (simp add: le32_def length_PutUint32)

lemma length_md5 [simp]: "length (md5 m) = 16"
  by (simp add: md5_def Let_def split: prod.splits)

lemma length_hmac_md5_impl [simp]: "length (hmac_md5_impl k m) = 16"
  by (simp add: hmac_md5_impl_def Let_def)

lemma nlmp_helpers_simps:
  "extractFields nlmp_helpers = extractFields_spec"
  "NewAvPairs nlmp_helpers = Inr"
  "NewTargetInformation nlmp_helpers = (\<lambda>av. (Some av, None))"
  "NewLMChallengeResponse nlmp_helpers = (\<lambda>n. (Some (replicate 24 0), n))"
  "NewNtChallengeResponse nlmp_helpers = NewNtChallengeResponse_spec"
  "ToUnicode nlmp_helpers = utf16le_ascii"
  "StrToUTF16 nlmp_helpers = utf16le_ascii"
  "ToUpper nlmp_helpers = ascii_upper"
  "signKey nlmp_helpers = (\<lambda>key magic flags. (md5 (key @ magic), None))"
  "sealKey nlmp_helpers = sealKey_spec"
  "sign nlmp_helpers = sign_spec nlmp_consts hmac_md5_impl rc4_xor"
  "hmac_md5 nlmp_helpers = hmac_md5_impl"
  "rc4_NewCipher nlmp_helpers = rc4_NewCipher_impl"
  "rc4_XORKeyStream nlmp_helpers = rc4_xor"
  by (simp_all add: nlmp_helpers_def)

lemma nlmp_keys:
  "fst (AcceptSecContext_keys nlmp_consts nlmp_helpers n) = Inr (AuthenticateMessage n)"
  "NegotiateFlags (snd (AcceptSecContext_keys nlmp_consts nlmp_helpers n)) = NegotiateFlags n"
  "SequenceNumber (snd (AcceptSecContext_keys nlmp_consts nlmp_helpers n)) = SequenceNumber n"
  "ClientHandle (snd (AcceptSecContext_keys nlmp_consts nlmp_helpers n)) \<noteq> None"
  by (simp_all add: AcceptSecContext_keys_def nlmp_helpers_simps sealKey_spec_def
        rc4_NewCipher_impl_def Let_def)

lemma nlmp_message:
  "\<not> isl (fst (AcceptSecContext_message nlmp_consts nlmp_helpers n targetName))"
  "NegotiateFlags (snd (AcceptSecContext_message nlmp_consts nlmp_helpers n targetName))
     = NegotiateFlags n"
  "SequenceNumber (snd (AcceptSecContext_message nlmp_consts nlmp_helpers n targetName))
     = SequenceNumber n"
  "ClientHandle (snd (AcceptSecContext_message nlmp_consts nlmp_helpers n targetName)) \<noteq> None"
  by (simp_all add: AcceptSecContext_message_unfold nlmp_keys Let_def
        nlmp_helpers_simps NewNtChallengeResponse_spec_def)

lemma session1_flags: "NegotiateFlags session1 = 0xe288b215"
  unfolding session1_def by code_simp

lemma session1_SequenceNumber: "SequenceNumber session1 = 0"
  unfolding session1_def by code_simp

lemma challenge0_accepted:
  "AcceptSecContext nlmp_consts nlmp_helpers session1 challenge0 =
     AcceptSecContext_message nlmp_consts nlmp_helpers
       (session1\<lparr>ServerChallenge := slice challenge0 24 32, TargetInfo := Some [0, 0, 0, 0]\<rparr>) []"
proof -
  have a: "\<not> length challenge0 < 48" by (simp add: challenge0_def)
  have b: "slice challenge0 0 8 = Signature nlmp_consts" by code_simp
  have c: "Uint32 challenge0 8 = MessageTypeNtLmChallenge nlmp_consts" by code_simp
  have d: "extractFields_spec (slice challenge0 12 20) challenge0 = Inr []" by code_simp
  have e: "extractFields_spec (slice challenge0 40 48) challenge0 = Inr [0, 0, 0, 0]" by code_simp
  have f: "0xe288b215 AND Uint32 challenge0 20 AND RequestTarget nlmp_consts \<noteq> 0"
          "0xe288b215 AND Uint32 challenge0 20 AND NegotiateTargetInfo nlmp_consts \<noteq> 0" by code_simp+
  show ?thesis
    by (simp add: AcceptSecContext_def a b c d e f session1_flags nlmp_helpers_simps Let_def)
qed

lemma session2_facts:
  "\<not> isl (fst (AcceptSecContext nlmp_consts nlmp_helpers session1 challenge0))"
  "NegotiateFlags session2 = 0xe288b215"
  "SequenceNumber session2 = 0"
  "ClientHandle session2 \<noteq> None"
  by (simp_all add: session2_def challenge0_accepted nlmp_message session1_flags
        session1_SequenceNumber)

lemma length_rc4_xor [simp]: "length (fst (rc4_xor c xs)) = length xs"
proof (induction xs arbitrary: c)
  case Nil
  then show ?case by simp
next
  case (Cons x xs)
  then show ?case
    by (cases c) (simp add: Let_def split: prod.splits, metis fst_conv)
qed

lemma length_utf16le_ascii [simp]: "length (utf16le_ascii s) = 2 * length s"
  by (induction s) (simp_all add: utf16le_ascii_def)

lemma length_ascii_upper [simp]: "length (ascii_upper s) = length s"
  by (simp add: ascii_upper_def)

lemma session1_names: "names session1 = (''Domain'', ''User'', ''COMPUTER'')"
  unfolding session1_def names_def by code_simp

lemma nlmp_helpers_keep_names:
  "names (snd (NewLMChallengeResponse nlmp_helpers m)) = names m"
  "names (snd (NewNtChallengeResponse nlmp_helpers m t)) = names m"
  by (simp_all add: nlmp_helpers_simps NewNtChallengeResponse_spec_def Let_def names_def)

lemma authenticate0_length:
  "length (projr (fst (AcceptSecContext nlmp_consts nlmp_helpers session1 challenge0))) = 216"
proof -
  have n: "Domain session1 = ''Domain''" "User session1 = ''User''"
          "Workstation session1 = ''COMPUTER''"
    using session1_names by (simp_all add: names_def)
  have k: "(0xe288b215 :: u32) AND NegotiateKeyExch nlmp_consts \<noteq> 0"
    by (simp add: nlmp_consts_def)
  show ?thesis
    by (simp add: challenge0_accepted AcceptSecContext_message_unfold nlmp_keys
          nlmp_helpers_simps NewNtChallengeResponse_spec_def Let_def n k session1_flags)
qed

section \<open>The MIC field\<close>

text \<open>
  C1 says the 16 bytes at offset 72 of the emitted AUTHENTICATE message are the HMAC-MD5,
  under the exported session key, of NEGOTIATE, CHALLENGE and AUTHENTICATE with the MIC
  field zeroed. The code does not do that. Lines 327 to 334 feed the HMAC the NEGOTIATE
  and the AUTHENTICATE message and never the CHALLENGE; and line 335 copies the first 16
  bytes of \<open>hash.Sum(authenticateMessage[72:88])\<close>, which are the 16 bytes passed in
  (\<open>Sum\<close> appends the digest to its argument), that is the zeros of line 322, into the
  field. What holds instead: whenever \<open>AcceptSecContext\<close> succeeds, whatever the
  helpers and the HMAC are, the MIC field of the message it returns is sixteen zero
  bytes.
\<close>

theorem AcceptSecContext_mic_field_zero:
  assumes "AcceptSecContext K H n sc = (Inr msg, n')"
  shows "slice msg 72 88 = replicate 16 0"
proof -
  from assms obtain n1 targetName
    where "AcceptSecContext_message K H n1 targetName = (Inr msg, n')"
    using AcceptSecContext_Inr by blast
  then obtain F P where msg: "msg = F @ P" and F: "length F = 88" "slice F 72 88 = replicate 16 0"
    using AcceptSecContext_message_Inr [of K H n1 targetName msg n']
    by (metis length_authenticate_fixed mic_authenticate_fixed)
  from F show ?thesis by (simp add: msg slice_def)
qed

theorem AcceptSecContext_mic_field_zero_witness:
  "\<not> isl (fst (AcceptSecContext nlmp_consts nlmp_helpers session1 challenge0))
   \<and> slice (projr (fst (AcceptSecContext nlmp_consts nlmp_helpers session1 challenge0))) 72 88
       = replicate 16 0"
proof -
  have ok: "\<not> isl (fst (AcceptSecContext nlmp_consts nlmp_helpers session1 challenge0))"
    by (rule session2_facts)
  then have "AcceptSecContext nlmp_consts nlmp_helpers session1 challenge0 =
      (Inr (projr (fst (AcceptSecContext nlmp_consts nlmp_helpers session1 challenge0))), session2)"
    by (cases "AcceptSecContext nlmp_consts nlmp_helpers session1 challenge0")
       (auto simp: session2_def isl_def)
  from AcceptSecContext_mic_field_zero [OF this] ok show ?thesis by simp
qed

section \<open>Domain, user and workstation in the AUTHENTICATE message\<close>

text \<open>
  C9. In every AUTHENTICATE message \<open>AcceptSecContext\<close> returns, the payload after the
  88 fixed bytes is the LM response, the NT response, then \<open>ToUnicode\<close> of
  \<open>strings.ToUpper\<close> of the session's \<open>Domain\<close>, \<open>User\<close> and \<open>Workstation\<close>, then
  the encrypted session key; and, the message being shorter than \<open>2^32\<close> bytes and each
  of the three encodings shorter than \<open>2^16\<close> (the widths of a descriptor), the field
  descriptors at 28, 36 and 44 designate exactly these three uppercased encodings.
  \<open>AcceptSecContext\<close> never assigns the three strings, so they are the caller's as long
  as the two challenge-response methods leave them alone.
\<close>

theorem AcceptSecContext_names_uppercased:
  assumes "AcceptSecContext K H n sc = (Inr msg, n')"
  shows "(\<exists>lm nt. drop 88 msg =
             lm @ nt @ ToUnicode H (ToUpper H (Domain n')) @ ToUnicode H (ToUpper H (User n'))
               @ ToUnicode H (ToUpper H (Workstation n')) @ RandomSessionKey n')
         \<and> (length msg < 2 ^ 32
              \<and> length (ToUnicode H (ToUpper H (Domain n'))) < 2 ^ 16
              \<and> length (ToUnicode H (ToUpper H (User n'))) < 2 ^ 16
              \<and> length (ToUnicode H (ToUpper H (Workstation n'))) < 2 ^ 16
              \<longrightarrow> field_bytes msg 28 = ToUnicode H (ToUpper H (Domain n'))
                \<and> field_bytes msg 36 = ToUnicode H (ToUpper H (User n'))
                \<and> field_bytes msg 44 = ToUnicode H (ToUpper H (Workstation n')))
         \<and> ((\<forall>m. names (snd (NewLMChallengeResponse H m)) = names m)
              \<and> (\<forall>m t. names (snd (NewNtChallengeResponse H m t)) = names m)
              \<longrightarrow> names n' = names n)"
proof -
  from assms obtain n1 targetName
    where m: "AcceptSecContext_message K H n1 targetName = (Inr msg, n')"
      and n1: "names n1 = names n"
    using AcceptSecContext_Inr_names by blast
  define d where "d = ToUnicode H (ToUpper H (Domain n'))"
  define u where "u = ToUnicode H (ToUpper H (User n'))"
  define w where "w = ToUnicode H (ToUpper H (Workstation n'))"
  from AcceptSecContext_message_Inr [OF m] obtain lm nt F
    where msg: "msg = F @ lm @ nt @ d @ u @ w @ RandomSessionKey n'"
      and F: "F = authenticate_fixed K (length lm) (length nt) (length d) (length u) (length w)
                    (length (RandomSessionKey n')) (NegotiateFlags n')"
    unfolding d_def u_def w_def by blast
  have len: "length F = 88" by (simp add: F)
  have payload: "\<exists>lm nt. drop 88 msg = lm @ nt @ d @ u @ w @ RandomSessionKey n'"
    by (intro exI [of _ lm] exI [of _ nt]) (simp add: msg len)
  have decode: "field_bytes msg 28 = d \<and> field_bytes msg 36 = u \<and> field_bytes msg 44 = w"
    if b: "length msg < 2 ^ 32" "length d < 2 ^ 16" "length u < 2 ^ 16" "length w < 2 ^ 16"
  proof -
    from b(1) have bound:
      "88 + length lm + length nt + length d + length u + length w < 2 ^ 32"
      by (simp add: msg len)
    have "field_bytes (F @ (lm @ nt) @ d @ (u @ w @ RandomSessionKey n')) 28 = d"
      using bound b(2)
      by (intro field_bytes_append) (simp_all add: F fields_authenticate_fixed)
    moreover have "field_bytes (F @ (lm @ nt @ d) @ u @ (w @ RandomSessionKey n')) 36 = u"
      using bound b(3)
      by (intro field_bytes_append) (simp_all add: F fields_authenticate_fixed)
    moreover have "field_bytes (F @ (lm @ nt @ d @ u) @ w @ RandomSessionKey n') 44 = w"
      using bound b(4)
      by (intro field_bytes_append) (simp_all add: F fields_authenticate_fixed)
    ultimately show ?thesis by (simp add: msg)
  qed
  have frame: "names n' = names n"
    if "\<forall>m. names (snd (NewLMChallengeResponse H m)) = names m"
       "\<forall>m t. names (snd (NewNtChallengeResponse H m t)) = names m"
    using AcceptSecContext_message_names [OF m] that n1 by simp
  from payload decode frame show ?thesis
    unfolding d_def u_def w_def by blast
qed

theorem AcceptSecContext_names_uppercased_witness:
  "\<not> isl (fst (AcceptSecContext nlmp_consts nlmp_helpers session1 challenge0))
   \<and> names session1 = (''Domain'', ''User'', ''COMPUTER'')
   \<and> length (projr (fst (AcceptSecContext nlmp_consts nlmp_helpers session1 challenge0))) < 2 ^ 32
   \<and> (\<forall>m. names (snd (NewLMChallengeResponse nlmp_helpers m)) = names m)
   \<and> (\<forall>m t. names (snd (NewNtChallengeResponse nlmp_helpers m t)) = names m)
   \<and> field_bytes (projr (fst (AcceptSecContext nlmp_consts nlmp_helpers session1 challenge0))) 28
       = [68, 0, 79, 0, 77, 0, 65, 0, 73, 0, 78, 0]
   \<and> field_bytes (projr (fst (AcceptSecContext nlmp_consts nlmp_helpers session1 challenge0))) 36
       = [85, 0, 83, 0, 69, 0, 82, 0]
   \<and> field_bytes (projr (fst (AcceptSecContext nlmp_consts nlmp_helpers session1 challenge0))) 44
       = [67, 0, 79, 0, 77, 0, 80, 0, 85, 0, 84, 0, 69, 0, 82, 0]"
proof -
  let ?R = "AcceptSecContext nlmp_consts nlmp_helpers session1 challenge0"
  have ok: "\<not> isl (fst ?R)"
    by (rule session2_facts)
  then have run: "?R = (Inr (projr (fst ?R)), session2)"
    by (cases ?R) (auto simp: session2_def isl_def)
  have len: "length (projr (fst ?R)) < 2 ^ 32"
    by (simp add: authenticate0_length)
  have keep: "\<forall>m. names (snd (NewLMChallengeResponse nlmp_helpers m)) = names m"
             "\<forall>m t. names (snd (NewNtChallengeResponse nlmp_helpers m t)) = names m"
    by (simp_all add: nlmp_helpers_keep_names)
  note facts = AcceptSecContext_names_uppercased [OF run]
  from facts keep have "names session2 = names session1" by blast
  then have n2: "Domain session2 = ''Domain''" "User session2 = ''User''"
      "Workstation session2 = ''COMPUTER''"
    by (simp_all add: session1_names [unfolded names_def] names_def)
  have enc: "utf16le_ascii (ascii_upper ''Domain'') = [68, 0, 79, 0, 77, 0, 65, 0, 73, 0, 78, 0]"
       "utf16le_ascii (ascii_upper ''User'') = [85, 0, 83, 0, 69, 0, 82, 0]"
       "utf16le_ascii (ascii_upper ''COMPUTER'')
          = [67, 0, 79, 0, 77, 0, 80, 0, 85, 0, 84, 0, 69, 0, 82, 0]"
    by code_simp+
  from facts len have "field_bytes (projr (fst ?R)) 28 = utf16le_ascii (ascii_upper ''Domain'')
      \<and> field_bytes (projr (fst ?R)) 36 = utf16le_ascii (ascii_upper ''User'')
      \<and> field_bytes (projr (fst ?R)) 44 = utf16le_ascii (ascii_upper ''COMPUTER'')"
    by (simp add: n2 nlmp_helpers_simps)
  with ok len keep session1_names show ?thesis
    by (simp add: enc)
qed

section \<open>GetMIC\<close>

text \<open>
  C8. For every session whose negotiate flags lack \<open>NegotiateSign\<close>, \<open>GetMIC\<close>
  returns the empty byte string and leaves the session, with its sequence counter and
  its cipher handles, as it was.
\<close>

theorem GetMIC_without_sign:
  assumes "NegotiateFlags n AND NegotiateSign K = 0"
  shows "GetMIC K H n bs = (Inr [], n)"
  using assms by (simp add: GetMIC_def)

theorem GetMIC_without_sign_witness:
  "NegotiateFlags (session0\<lparr>NegotiateFlags := 0xe2888205\<rparr>) AND NegotiateSign nlmp_consts = 0
   \<and> GetMIC nlmp_consts nlmp_helpers (session0\<lparr>NegotiateFlags := 0xe2888205\<rparr>) [1, 2, 3]
       = (Inr [], session0\<lparr>NegotiateFlags := 0xe2888205\<rparr>)"
proof -
  have a: "NegotiateFlags (session0\<lparr>NegotiateFlags := 0xe2888205\<rparr>)
             AND NegotiateSign nlmp_consts = 0"
    by (simp add: nlmp_consts_def)
  from GetMIC_without_sign [OF a] a show ?thesis by simp
qed

lemma Uint32_le32: "Uint32 (xs @ le32 v) (length xs) = v"
proof -
  have "Uint32 (xs @ le32 v) (length xs) = Uint32 (le32 v) 0"
    by (simp add: Uint32_def nth_append eval_nat_numeral)
  then show ?thesis
    by (simp add: le32_def Uint32_PutUint32)
qed

lemma embedded_seq_le32: "embedded_seq (xs @ le32 v) = v"
  using Uint32_le32 [of xs v] by (simp add: embedded_seq_def)

lemma GetMIC_sign_spec:
  assumes "sign H = sign_spec K (hmac_md5 H) (rc4_XORKeyStream H)"
      and "NegotiateFlags n AND NegotiateSign K \<noteq> 0"
      and "NegotiateFlags n AND NegotiateKeyExch K = 0 \<or> ClientHandle n \<noteq> None"
  shows "\<exists>mic h. GetMIC K H n bs =
                    (Inr mic, n\<lparr>SequenceNumber := SequenceNumber n + 1, ClientHandle := h\<rparr>)
           \<and> embedded_seq mic = SequenceNumber n
           \<and> (ClientHandle n \<noteq> None \<longrightarrow> h \<noteq> None)"
proof (cases "NegotiateFlags n AND NegotiateKeyExch K = 0")
  case True
  let ?mic = "[] @ le32 1 @ take 8 (hmac_md5 H (ClientSigningKey n) (le32 (SequenceNumber n) @ bs))
                @ le32 (SequenceNumber n)"
  have "GetMIC K H n bs =
          (Inr ?mic, n\<lparr>SequenceNumber := SequenceNumber n + 1, ClientHandle := ClientHandle n\<rparr>)"
    using assms(1,2) True by (simp add: GetMIC_def sign_spec_def Let_def)
  moreover have "embedded_seq ?mic = SequenceNumber n"
    using embedded_seq_le32 [of "le32 1 @ take 8 (hmac_md5 H (ClientSigningKey n)
        (le32 (SequenceNumber n) @ bs))" "SequenceNumber n"] by simp
  ultimately show ?thesis by blast
next
  case False
  with assms(3) obtain c where c: "ClientHandle n = Some c" by auto
  obtain sealed c' where x:
    "rc4_XORKeyStream H c
       (take 8 (hmac_md5 H (ClientSigningKey n) (le32 (SequenceNumber n) @ bs))) = (sealed, c')"
    by (cases "rc4_XORKeyStream H c
       (take 8 (hmac_md5 H (ClientSigningKey n) (le32 (SequenceNumber n) @ bs)))")
  let ?mic = "[] @ le32 1 @ sealed @ le32 (SequenceNumber n)"
  have "GetMIC K H n bs =
          (Inr ?mic, n\<lparr>SequenceNumber := SequenceNumber n + 1, ClientHandle := Some c'\<rparr>)"
    using assms(1,2) False c x by (simp add: GetMIC_def sign_spec_def Let_def)
  moreover have "embedded_seq ?mic = SequenceNumber n"
    using embedded_seq_le32 [of "le32 1 @ sealed" "SequenceNumber n"] by simp
  ultimately show ?thesis by blast
qed

lemma GetMIC_calls_sign_spec:
  assumes "sign H = sign_spec K (hmac_md5 H) (rc4_XORKeyStream H)"
      and "NegotiateFlags n AND NegotiateSign K \<noteq> 0"
      and "NegotiateFlags n AND NegotiateKeyExch K = 0 \<or> ClientHandle n \<noteq> None"
  shows "length (fst (GetMIC_calls K H n bss)) = length bss
         \<and> SequenceNumber (snd (GetMIC_calls K H n bss)) = SequenceNumber n + of_nat (length bss)
         \<and> (\<forall>i<length bss. \<exists>mic. fst (GetMIC_calls K H n bss) ! i = Inr mic
               \<and> embedded_seq mic = SequenceNumber n + of_nat i)"
  using assms(2,3)
proof (induction bss arbitrary: n)
  case Nil
  then show ?case by simp
next
  case (Cons bs bss)
  from GetMIC_sign_spec [OF assms(1) Cons.prems, of bs] obtain mic h
    where step: "GetMIC K H n bs =
                   (Inr mic, n\<lparr>SequenceNumber := SequenceNumber n + 1, ClientHandle := h\<rparr>)"
      and mic: "embedded_seq mic = SequenceNumber n"
      and h: "ClientHandle n \<noteq> None \<longrightarrow> h \<noteq> None"
    by blast
  let ?n1 = "n\<lparr>SequenceNumber := SequenceNumber n + 1, ClientHandle := h\<rparr>"
  have p1: "NegotiateFlags ?n1 AND NegotiateSign K \<noteq> 0"
    using Cons.prems(1) by simp
  have p2: "NegotiateFlags ?n1 AND NegotiateKeyExch K = 0 \<or> ClientHandle ?n1 \<noteq> None"
    using Cons.prems(2) h by auto
  note IH = Cons.IH [OF p1 p2]
  have calls: "GetMIC_calls K H n (bs # bss) =
                 (Inr mic # fst (GetMIC_calls K H ?n1 bss), snd (GetMIC_calls K H ?n1 bss))"
    by (simp add: step split: prod.splits)
  have nth: "\<exists>m. (Inr mic # fst (GetMIC_calls K H ?n1 bss)) ! i = Inr m
               \<and> embedded_seq m = SequenceNumber n + of_nat i"
    if "i < length (bs # bss)" for i
  proof (cases i)
    case 0
    then show ?thesis by (simp add: mic)
  next
    case (Suc j)
    with that have "j < length bss" by simp
    with IH obtain m where "fst (GetMIC_calls K H ?n1 bss) ! j = Inr m"
      "embedded_seq m = SequenceNumber ?n1 + of_nat j" by blast
    then show ?thesis by (simp add: Suc)
  qed
  from IH nth show ?case
    by (simp del: GetMIC_calls.simps add: calls ac_simps)
qed

text \<open>
  C6, as the code has it. \<open>GetMIC\<close> makes no check of the protocol state and has no
  error to return: no call of it, in any state, yields an error value, and its result is
  determined by four fields of the session (\<open>NegotiateFlags\<close>, \<open>ClientHandle\<close>,
  \<open>ClientSigningKey\<close>, \<open>SequenceNumber\<close>): two sessions that agree on them get the
  same signature, whether or not \<open>AcceptSecContext\<close> has run on either.
\<close>

theorem GetMIC_checks_no_state:
  "(\<forall>m. fst (GetMIC K H n bs) \<noteq> Inl (Error m))
   \<and> (NegotiateFlags n' = NegotiateFlags n \<and> ClientHandle n' = ClientHandle n
        \<and> ClientSigningKey n' = ClientSigningKey n \<and> SequenceNumber n' = SequenceNumber n
        \<longrightarrow> fst (GetMIC K H n' bs) = fst (GetMIC K H n bs))"
  by (auto simp: GetMIC_def split: option.splits prod.splits)

lemma session1_nokx_fields:
  "NegotiateFlags session1_nokx = 0xa288b215"
  "ClientHandle session1_nokx = None"
  "ClientSigningKey session1_nokx = []"
  "SequenceNumber session1_nokx = 0"
  "AuthenticateMessage session1_nokx = []"
  unfolding session1_nokx_def by code_simp+

theorem GetMIC_checks_no_state_witness:
  "NegotiateFlags (session1_nokx\<lparr>AuthenticateMessage := [1], ExportedSessionKey := [2]\<rparr>)
     = NegotiateFlags session1_nokx
   \<and> ClientHandle (session1_nokx\<lparr>AuthenticateMessage := [1], ExportedSessionKey := [2]\<rparr>)
     = ClientHandle session1_nokx
   \<and> ClientSigningKey (session1_nokx\<lparr>AuthenticateMessage := [1], ExportedSessionKey := [2]\<rparr>)
     = ClientSigningKey session1_nokx
   \<and> SequenceNumber (session1_nokx\<lparr>AuthenticateMessage := [1], ExportedSessionKey := [2]\<rparr>)
     = SequenceNumber session1_nokx
   \<and> fst (GetMIC nlmp_consts nlmp_helpers
         (session1_nokx\<lparr>AuthenticateMessage := [1], ExportedSessionKey := [2]\<rparr>) [1, 2, 3])
     = fst (GetMIC nlmp_consts nlmp_helpers session1_nokx [1, 2, 3])"
  using GetMIC_checks_no_state [of nlmp_consts nlmp_helpers session1_nokx "[1, 2, 3]"
      "session1_nokx\<lparr>AuthenticateMessage := [1], ExportedSessionKey := [2]\<rparr>"]
  by simp

lemma hmac_empty_key_123:
  "take 8 (hmac_md5_impl [] [0, 0, 0, 0, 1, 2, 3]) = [109, 150, 30, 53, 137, 192, 179, 250]"
  by code_simp

text \<open>
  C6, as stated, fails: on a session that has been through \<open>InitSecContext\<close> only (no
  cipher handle, no AUTHENTICATE message) with \<open>NegotiateSign\<close> set and no key exchange,
  \<open>GetMIC\<close> returns a 16-byte signature record, with \<open>sign\<close> as the spec describes
  it, and advances the sequence counter; it does not fail.
\<close>

theorem GetMIC_before_AcceptSecContext_counterexample:
  "ClientHandle session1_nokx = None
   \<and> AuthenticateMessage session1_nokx = []
   \<and> NegotiateFlags session1_nokx AND NegotiateSign nlmp_consts \<noteq> 0
   \<and> GetMIC nlmp_consts nlmp_helpers session1_nokx [1, 2, 3]
       = (Inr [1, 0, 0, 0, 109, 150, 30, 53, 137, 192, 179, 250, 0, 0, 0, 0],
          session1_nokx\<lparr>SequenceNumber := 1, ClientHandle := None\<rparr>)"
proof -
  have s: "NegotiateFlags session1_nokx AND NegotiateSign nlmp_consts \<noteq> 0"
    by (simp add: session1_nokx_fields nlmp_consts_def)
  have k: "NegotiateFlags session1_nokx AND NegotiateKeyExch nlmp_consts = 0"
    by (simp add: session1_nokx_fields nlmp_consts_def)
  have l: "le32 1 = [1, 0, 0, 0]" "le32 0 = [0, 0, 0, 0]"
    by code_simp+
  have "GetMIC nlmp_consts nlmp_helpers session1_nokx [1, 2, 3]
       = (Inr ([] @ le32 1 @ take 8 (hmac_md5_impl [] (le32 0 @ [1, 2, 3])) @ le32 0),
          session1_nokx\<lparr>SequenceNumber := 0 + 1, ClientHandle := None\<rparr>)"
    using s k
    by (simp add: GetMIC_def nlmp_helpers_simps sign_spec_def Let_def session1_nokx_fields(2-4))
  then show ?thesis
    using s by (simp add: hmac_empty_key_123 l session1_nokx_fields)
qed

text \<open>
  C7, as the code and the spec's \<open>sign\<close> have it. In a session with \<open>NegotiateSign\<close>
  set (and a cipher behind the client handle, or no key exchange) whose counter is at
  0, every \<open>GetMIC\<close> call returns a signature; the signature of call number \<open>i\<close>
  (counting from 0) carries the sequence number \<open>i mod 2^32\<close>, and after \<open>k\<close> calls
  the counter is \<open>k mod 2^32\<close>. So the numbers are 0, 1, 2, ... with no gap and no
  repeat over the first \<open>2^32\<close> calls, and the 32-bit counter wraps after that.
\<close>

theorem GetMIC_sequence_numbers:
  assumes "sign H = sign_spec K (hmac_md5 H) (rc4_XORKeyStream H)"
      and "NegotiateFlags n AND NegotiateSign K \<noteq> 0"
      and "NegotiateFlags n AND NegotiateKeyExch K = 0 \<or> ClientHandle n \<noteq> None"
      and "SequenceNumber n = 0"
  shows "length (fst (GetMIC_calls K H n bss)) = length bss
         \<and> (\<forall>i<length bss. \<exists>mic. fst (GetMIC_calls K H n bss) ! i = Inr mic
               \<and> unat (embedded_seq mic) = i mod 2 ^ 32)
         \<and> unat (SequenceNumber (snd (GetMIC_calls K H n bss))) = length bss mod 2 ^ 32"
proof -
  note calls = GetMIC_calls_sign_spec [OF assms(1,2,3), of bss]
  have "\<exists>mic. fst (GetMIC_calls K H n bss) ! i = Inr mic
          \<and> unat (embedded_seq mic) = i mod 2 ^ 32" if "i < length bss" for i
  proof -
    from calls that obtain mic where "fst (GetMIC_calls K H n bss) ! i = Inr mic"
      "embedded_seq mic = SequenceNumber n + of_nat i" by blast
    then show ?thesis by (simp add: assms(4) unat_of_nat)
  qed
  moreover have "unat (SequenceNumber (snd (GetMIC_calls K H n bss))) = length bss mod 2 ^ 32"
    using calls by (simp add: assms(4) unat_of_nat)
  ultimately show ?thesis using calls by blast
qed

theorem GetMIC_sequence_numbers_witness:
  "sign nlmp_helpers = sign_spec nlmp_consts (hmac_md5 nlmp_helpers) (rc4_XORKeyStream nlmp_helpers)
   \<and> NegotiateFlags session2 AND NegotiateSign nlmp_consts \<noteq> 0
   \<and> ClientHandle session2 \<noteq> None
   \<and> SequenceNumber session2 = 0
   \<and> length (fst (GetMIC_calls nlmp_consts nlmp_helpers session2 [[1], [2], [3]])) = 3
   \<and> unat (embedded_seq (projr
         (fst (GetMIC_calls nlmp_consts nlmp_helpers session2 [[1], [2], [3]]) ! 0))) = 0
   \<and> unat (embedded_seq (projr
         (fst (GetMIC_calls nlmp_consts nlmp_helpers session2 [[1], [2], [3]]) ! 1))) = 1
   \<and> unat (embedded_seq (projr
         (fst (GetMIC_calls nlmp_consts nlmp_helpers session2 [[1], [2], [3]]) ! 2))) = 2
   \<and> unat (SequenceNumber (snd (GetMIC_calls nlmp_consts nlmp_helpers session2 [[1], [2], [3]])))
       = 3"
proof -
  let ?R = "GetMIC_calls nlmp_consts nlmp_helpers session2 [[1], [2], [3]]"
  have a: "sign nlmp_helpers
             = sign_spec nlmp_consts (hmac_md5 nlmp_helpers) (rc4_XORKeyStream nlmp_helpers)"
    by (simp add: nlmp_helpers_simps)
  have b: "NegotiateFlags session2 AND NegotiateSign nlmp_consts \<noteq> 0"
    by (simp add: session2_facts nlmp_consts_def)
  have c: "ClientHandle session2 \<noteq> None"
    by (rule session2_facts)
  have d: "SequenceNumber session2 = 0"
    by (rule session2_facts)
  from c have c': "NegotiateFlags session2 AND NegotiateKeyExch nlmp_consts = 0
                     \<or> ClientHandle session2 \<noteq> None" ..
  note facts = GetMIC_sequence_numbers [OF a b c' d, of "[[1], [2], [3]]"]
  have e: "unat (embedded_seq (projr (fst ?R ! i))) = i" if "i < 3" for i
  proof -
    from that have "i < length [[1 :: byte], [2], [3]]" by simp
    with facts obtain mic where "fst ?R ! i = Inr mic"
      "unat (embedded_seq mic) = i mod 2 ^ 32" by blast
    with that show ?thesis by (simp del: GetMIC_calls.simps)
  qed
  from facts have "length (fst ?R) = 3" "unat (SequenceNumber (snd ?R)) = 3"
    by (simp_all del: GetMIC_calls.simps)
  with a b c d e [of 0] e [of 1] e [of 2] show ?thesis
    by (simp del: GetMIC_calls.simps)
qed

text \<open>
  C7, as stated for any sequence of calls, fails: in the authenticated session of the
  run above, the signature of call number \<open>2^32\<close> carries the sequence number 0, as
  the first signature does.
\<close>

theorem GetMIC_sequence_counterexample:
  "SequenceNumber session2 = 0
   \<and> embedded_seq (projr
         (fst (GetMIC_calls nlmp_consts nlmp_helpers session2 (replicate (2 ^ 32 + 1) [])) ! 0))
       = 0
   \<and> embedded_seq (projr
         (fst (GetMIC_calls nlmp_consts nlmp_helpers session2 (replicate (2 ^ 32 + 1) []))
            ! (2 ^ 32)))
       = 0"
proof -
  let ?R = "GetMIC_calls nlmp_consts nlmp_helpers session2 (replicate (2 ^ 32 + 1) [])"
  have a: "sign nlmp_helpers
             = sign_spec nlmp_consts (hmac_md5 nlmp_helpers) (rc4_XORKeyStream nlmp_helpers)"
    by (simp add: nlmp_helpers_simps)
  have b: "NegotiateFlags session2 AND NegotiateSign nlmp_consts \<noteq> 0"
    by (simp add: session2_facts nlmp_consts_def)
  have c: "NegotiateFlags session2 AND NegotiateKeyExch nlmp_consts = 0
             \<or> ClientHandle session2 \<noteq> None"
    by (simp add: session2_facts)
  have d: "SequenceNumber session2 = 0"
    by (rule session2_facts)
  note calls = GetMIC_calls_sign_spec [OF a b c, of "replicate (2 ^ 32 + 1) []"]
  have e: "embedded_seq (projr (fst ?R ! i)) = of_nat i" if "i < 2 ^ 32 + 1" for i
  proof -
    from that have "i < length (replicate (2 ^ 32 + 1) ([] :: bytes))" by simp
    with calls obtain mic where "fst ?R ! i = Inr mic"
      "embedded_seq mic = SequenceNumber session2 + of_nat i" by blast
    then show ?thesis by (simp add: d)
  qed
  have "embedded_seq (projr (fst ?R ! 0)) = 0"
    using e [of 0] by simp
  moreover have "embedded_seq (projr (fst ?R ! (2 ^ 32))) = 0"
    using e [of "2 ^ 32"] by simp
  ultimately show ?thesis using d by simp
qed

section \<open>SessionKey\<close>










end
